theory Spec2Isabelle
  imports Main "HOL-Library.Char_ord" "HOL-Library.List_Lexorder"
begin

section \<open>JavaScript values\<close>

text \<open>
  The program is TypeScript. Its numbers are modelled as integers extended by the one value
  \<open>NaN\<close>, which \<open>parseInt\<close> returns on text without digits and which every arithmetic
  operation propagates; a comparison with \<open>NaN\<close> is false. (The numbers that occur are
  millisecond time stamps, request counts and status codes, all far below \<open>2^53\<close>, where
  the floating-point arithmetic of JavaScript is exact.) Strings are byte strings holding
  the UTF-8 encoding of the text.
\<close>

datatype jsnum = Num int | NaN

fun js_sub :: "jsnum \<Rightarrow> jsnum \<Rightarrow> jsnum" where
  "js_sub (Num a) (Num b) = Num (a - b)"
| "js_sub _ _ = NaN"

fun js_mul :: "jsnum \<Rightarrow> jsnum \<Rightarrow> jsnum" where
  "js_mul (Num a) (Num b) = Num (a * b)"
| "js_mul _ _ = NaN"

text \<open>\<open>a >= b\<close> and \<open>a > b\<close>.\<close>

fun js_ge :: "jsnum \<Rightarrow> jsnum \<Rightarrow> bool" where
  "js_ge (Num a) (Num b) = (a \<ge> b)"
| "js_ge _ _ = False"

fun js_gt :: "jsnum \<Rightarrow> jsnum \<Rightarrow> bool" where
  "js_gt (Num a) (Num b) = (a > b)"
| "js_gt _ _ = False"

text \<open>\<open>Math.max(0, x)\<close> and \<open>x++\<close>.\<close>

fun js_max0 :: "jsnum \<Rightarrow> jsnum" where
  "js_max0 (Num a) = Num (max 0 a)"
| "js_max0 NaN = NaN"

fun js_inc :: "jsnum \<Rightarrow> jsnum" where
  "js_inc (Num a) = Num (a + 1)"
| "js_inc NaN = NaN"

text \<open>
  \<open>parseInt(s, 10)\<close>: leading white space is skipped (here the white space of ASCII), one
  sign is read, then the longest run of decimal digits; without a digit the result is
  \<open>NaN\<close>.
\<close>

definition isWhiteSpace :: "char \<Rightarrow> bool" where
  "isWhiteSpace c = (c \<in> set [CHR '' '', CHR 0x09, CHR 0x0A, CHR 0x0B, CHR 0x0C, CHR 0x0D])"

definition isDigit :: "char \<Rightarrow> bool" where
  "isDigit c = (CHR ''0'' \<le> c \<and> c \<le> CHR ''9'')"

definition digitVal :: "char \<Rightarrow> int" where
  "digitVal c = int (of_char c) - 48"

definition digitsVal :: "string \<Rightarrow> int" where
  "digitsVal ds = foldl (\<lambda>acc c. acc * 10 + digitVal c) 0 ds"

definition parseInt :: "string \<Rightarrow> jsnum" where
  "parseInt s =
     (let t = dropWhile isWhiteSpace s;
          (neg, u) = (case t of
                        c # r \<Rightarrow> if c = CHR ''-'' then (True, r)
                                 else if c = CHR ''+'' then (False, r) else (False, t)
                      | [] \<Rightarrow> (False, t));
          ds = takeWhile isDigit u
      in if ds = [] then NaN
         else Num (if neg then - digitsVal ds else digitsVal ds))"

section \<open>Rate limiter (utils/rate-limiter)\<close>

record RateLimitEntry =
  count :: jsnum
  resetTime :: int

record RateLimitInfo =
  remaining :: jsnum
  reset :: int
  limit :: int

record RateLimiter =
  limits :: "string \<rightharpoonup> RateLimitEntry"
  maxRequests :: int
  windowMs :: int

text \<open>
  The constructor: \<open>maxRequests || config.dockerhub.rateLimit\<close> and
  \<open>(windowMs || config.dockerhub.rateLimitWindow) * 1000\<close>; its second argument is in
  seconds, the field in milliseconds. An absent argument and the argument 0 both take the
  configured value.
\<close>

definition newRateLimiter :: "int \<Rightarrow> int \<Rightarrow> int option \<Rightarrow> int option \<Rightarrow> RateLimiter" where
  "newRateLimiter cfgRateLimit cfgRateLimitWindow maxReq window =
     \<lparr> limits = Map.empty,
       maxRequests = (case maxReq of Some m \<Rightarrow> if m \<noteq> 0 then m else cfgRateLimit
                                   | None \<Rightarrow> cfgRateLimit),
       windowMs = (case window of Some v \<Rightarrow> if v \<noteq> 0 then v else cfgRateLimitWindow
                                 | None \<Rightarrow> cfgRateLimitWindow) * 1000 \<rparr>"

text \<open>
  \<open>isAllowed(key)\<close> at the time \<open>now = Date.now()\<close>: the answer and the limiter
  afterwards.
\<close>

definition isAllowed :: "int \<Rightarrow> string \<Rightarrow> RateLimiter \<Rightarrow> bool \<times> RateLimiter" where
  "isAllowed now key s =
     (let fresh = s\<lparr>limits := (limits s)(key \<mapsto> \<lparr>count = Num 1, resetTime = now + windowMs s\<rparr>)\<rparr>
      in case limits s key of
           None \<Rightarrow> (True, fresh)
         | Some entry \<Rightarrow>
             if now \<ge> resetTime entry then (True, fresh)
             else if js_ge (count entry) (Num (maxRequests s)) then (False, s)
             else (True, s\<lparr>limits := (limits s)(key \<mapsto> entry\<lparr>count := js_inc (count entry)\<rparr>)\<rparr>))"

definition getInfo :: "int \<Rightarrow> string \<Rightarrow> RateLimiter \<Rightarrow> RateLimitInfo" where
  "getInfo now key s =
     (let unset = \<lparr>remaining = Num (maxRequests s - 1), reset = now + windowMs s,
                   limit = maxRequests s\<rparr>
      in case limits s key of
           None \<Rightarrow> unset
         | Some entry \<Rightarrow>
             if now \<ge> resetTime entry then unset
             else \<lparr>remaining = js_max0 (js_sub (Num (maxRequests s)) (count entry)),
                   reset = resetTime entry, limit = maxRequests s\<rparr>)"

text \<open>
  \<open>headers[a] || headers[b] || '0'\<close>: an absent header and an empty one are both falsy.
\<close>

definition headerOr :: "(string \<rightharpoonup> string) \<Rightarrow> string \<Rightarrow> string \<Rightarrow> string" where
  "headerOr headers a b =
     (case headers a of
        Some v \<Rightarrow> if v \<noteq> [] then v
                  else (case headers b of Some v' \<Rightarrow> if v' \<noteq> [] then v' else ''0'' | None \<Rightarrow> ''0'')
      | None \<Rightarrow> (case headers b of Some v' \<Rightarrow> if v' \<noteq> [] then v' else ''0'' | None \<Rightarrow> ''0''))"

definition updateFromHeaders :: "(string \<rightharpoonup> string) \<Rightarrow> string \<Rightarrow> RateLimiter \<Rightarrow> RateLimiter" where
  "updateFromHeaders headers key s =
     (let limit = parseInt (headerOr headers ''x-ratelimit-limit'' ''ratelimit-limit'');
          remaining = parseInt (headerOr headers ''x-ratelimit-remaining'' ''ratelimit-remaining'');
          reset = parseInt (headerOr headers ''x-ratelimit-reset'' ''ratelimit-reset'');
          s1 = (if js_gt limit (Num 0) then s\<lparr>maxRequests := (case limit of Num l \<Rightarrow> l | NaN \<Rightarrow> maxRequests s)\<rparr> else s)
      in if js_gt reset (Num 0)
         then (case reset of
                 Num r \<Rightarrow> s1\<lparr>limits := (limits s1)(key \<mapsto>
                            \<lparr>count = js_max0 (js_sub limit remaining), resetTime = r * 1000\<rparr>)\<rparr>
               | NaN \<Rightarrow> s1)
         else s1)"

definition clear :: "string \<Rightarrow> RateLimiter \<Rightarrow> RateLimiter" where
  "clear key s = s\<lparr>limits := (limits s)(key := None)\<rparr>"


section \<open>JSON payloads and their string conversion\<close>

text \<open>
  Values whose TypeScript type is \<open>any\<close>: the parsed JSON of a response body and the values
  of a request's parameter map. An object is the list of its entries in insertion order,
  with distinct keys. \<open>JNum\<close> holds the integer-valued numbers.
\<close>

datatype json = JNull | JBool bool | JNum int | JStr string | JArr "json list"
  | JObj "(string \<times> json) list"

fun truthy :: "json \<Rightarrow> bool" where
  "truthy JNull = False"
| "truthy (JBool b) = b"
| "truthy (JNum n) = (n \<noteq> 0)"
| "truthy (JStr s) = (s \<noteq> [])"
| "truthy (JArr _) = True"
| "truthy (JObj _) = True"

text \<open>\<open>s || d\<close> on an optional string: absent and empty are falsy.\<close>

fun strOr :: "string option \<Rightarrow> string \<Rightarrow> string" where
  "strOr None d = d"
| "strOr (Some s) d = (if s \<noteq> [] then s else d)"

fun truthyStr :: "string option \<Rightarrow> bool" where
  "truthyStr None = False"
| "truthyStr (Some s) = (s \<noteq> [])"

fun natDigits :: "nat \<Rightarrow> string" where
  "natDigits n = (if n < 10 then [char_of (48 + n)]
                  else natDigits (n div 10) @ [char_of (48 + n mod 10)])"

declare natDigits.simps [simp del]

definition intString :: "int \<Rightarrow> string" where
  "intString i = (if i < 0 then CHR ''-'' # natDigits (nat (- i)) else natDigits (nat i))"

fun join :: "string \<Rightarrow> string list \<Rightarrow> string" where
  "join sep [] = []"
| "join sep [x] = x"
| "join sep (x # y # ys) = x @ sep @ join sep (y # ys)"

text \<open>
  \<open>String(v)\<close>, which a template literal and \<open>Array.prototype.join\<close> apply as well; inside
  \<open>join\<close> a \<open>null\<close> element gives the empty string.
\<close>

fun js_String :: "json \<Rightarrow> string" where
  "js_String JNull = ''null''"
| "js_String (JBool b) = (if b then ''true'' else ''false'')"
| "js_String (JNum n) = intString n"
| "js_String (JStr s) = s"
| "js_String (JArr xs) = join '','' (map (\<lambda>x. if x = JNull then [] else js_String x) xs)"
| "js_String (JObj _) = ''[object Object]''"

text \<open>
  Reading the property \<open>k\<close> of a value: \<open>None\<close> is \<open>undefined\<close>. Only an object has the
  properties read by this program; on \<open>null\<close> the read itself throws, which the callers
  check before they use this function.
\<close>

fun getProp :: "json \<Rightarrow> string \<Rightarrow> json option" where
  "getProp (JObj fs) k = map_of fs k"
| "getProp _ k = None"

fun truthyOpt :: "json option \<Rightarrow> bool" where
  "truthyOpt None = False"
| "truthyOpt (Some v) = truthy v"

section \<open>Errors (types, utils/error-handler)\<close>

text \<open>
  The class hierarchy \<open>DockerHubError\<close>, \<open>RateLimitError\<close> (with its \<open>resetTime\<close>, status
  429) and \<open>AuthenticationError\<close> (status 401).
\<close>

datatype ErrorClass = DockerHubErrorC | RateLimitErrorC jsnum | AuthenticationErrorC

record DockerHubError =
  errorClass :: ErrorClass
  message :: string
  statusCode :: "int option"
  response :: "json option"

definition newDockerHubError :: "string \<Rightarrow> int option \<Rightarrow> json option \<Rightarrow> DockerHubError" where
  "newDockerHubError m st d = \<lparr>errorClass = DockerHubErrorC, message = m, statusCode = st, response = d\<rparr>"

definition newRateLimitError :: "string \<Rightarrow> jsnum \<Rightarrow> DockerHubError" where
  "newRateLimitError m rt = \<lparr>errorClass = RateLimitErrorC rt, message = m, statusCode = Some 429, response = None\<rparr>"

definition newAuthenticationError :: "string \<Rightarrow> DockerHubError" where
  "newAuthenticationError m = \<lparr>errorClass = AuthenticationErrorC, message = m, statusCode = Some 401, response = None\<rparr>"

record AxiosResponse =
  status :: int
  data :: json
  headers :: "string \<rightharpoonup> string"

record AxiosError =
  ax_response :: "AxiosResponse option"
  ax_request :: bool
  ax_message :: string

text \<open>
  What a \<open>catch\<close> can receive: an error of the hierarchy above, an error of the HTTP
  library, any other \<open>Error\<close> (with its message), or a value that is no \<open>Error\<close>.
\<close>

datatype thrown = ThrownDH DockerHubError | ThrownAxios AxiosError | ThrownError string
  | ThrownOther

definition typeErrorNull :: "string \<Rightarrow> string" where
  "typeErrorNull p = ''Cannot read properties of null (reading '' @ [CHR 0x27] @ p @ [CHR 0x27] @ '')''"

text \<open>
  \<open>responseData.errors.map(e => e.message || e).join(', ')\<close>. Reading \<open>message\<close> of a
  \<open>null\<close> element throws a \<open>TypeError\<close>.
\<close>

fun errorsItem :: "json \<Rightarrow> thrown + json" where
  "errorsItem JNull = Inl (ThrownError (typeErrorNull ''message''))"
| "errorsItem e = Inr (case getProp e ''message'' of
                         Some m \<Rightarrow> if truthy m then m else e
                       | None \<Rightarrow> e)"

fun errorsItems :: "json list \<Rightarrow> thrown + json list" where
  "errorsItems [] = Inr []"
| "errorsItems (e # es) =
     (case errorsItem e of
        Inl t \<Rightarrow> Inl t
      | Inr v \<Rightarrow> (case errorsItems es of Inl t \<Rightarrow> Inl t | Inr vs \<Rightarrow> Inr (v # vs)))"

text \<open>The message taken from a response body, or the library's own message \<open>m\<close>.\<close>

definition extractMessage :: "json \<Rightarrow> string \<Rightarrow> thrown + json" where
  "extractMessage d m =
     (case d of
        JObj fs \<Rightarrow>
          if truthyOpt (getProp d ''message'') then Inr (the (getProp d ''message''))
          else if truthyOpt (getProp d ''detail'') then Inr (the (getProp d ''detail''))
          else if truthyOpt (getProp d ''error'') then Inr (the (getProp d ''error''))
          else (case getProp d ''errors'' of
                  Some (JArr es) \<Rightarrow>
                    (case errorsItems es of
                       Inl t \<Rightarrow> Inl t
                     | Inr vs \<Rightarrow> Inr (JStr (join '', '' (map js_String vs))))
                | _ \<Rightarrow> Inr (JStr m))
      | _ \<Rightarrow> Inr (JStr m))"

text \<open>\<open>errorMessage || d\<close>, as the message of the error built from it.\<close>

definition messageOr :: "json \<Rightarrow> string \<Rightarrow> string" where
  "messageOr v d = (if truthy v then js_String v else d)"

definition handleAxiosError :: "int \<Rightarrow> AxiosError \<Rightarrow> thrown + DockerHubError" where
  "handleAxiosError now error =
     (case ax_response error of
        None \<Rightarrow>
          if ax_request error
          then Inr (newDockerHubError ''Network error: Unable to reach Docker Hub API'' None None)
          else Inr (newDockerHubError (''Request setup error: '' @ ax_message error) None None)
      | Some r \<Rightarrow>
          (case extractMessage (data r) (ax_message error) of
             Inl t \<Rightarrow> Inl t
           | Inr errorMessage \<Rightarrow>
               if status r = 401 then Inr (newAuthenticationError (messageOr errorMessage ''Authentication failed''))
               else if status r = 403 then
                 Inr (newDockerHubError (messageOr errorMessage ''Access forbidden. Check your permissions.'')
                        (Some (status r)) (Some (data r)))
               else if status r = 404 then
                 Inr (newDockerHubError (messageOr errorMessage ''Resource not found'')
                        (Some (status r)) (Some (data r)))
               else if status r = 429 then
                 (let resetHeader = (if truthyStr (headers r ''x-ratelimit-reset'')
                                     then headers r ''x-ratelimit-reset''
                                     else headers r ''ratelimit-reset'');
                      resetTime = (if truthyStr resetHeader
                                   then js_mul (parseInt (the resetHeader)) (Num 1000)
                                   else Num (now + 3600000))
                  in Inr (newRateLimitError (messageOr errorMessage ''Rate limit exceeded'') resetTime))
               else if status r = 500 then
                 Inr (newDockerHubError ''Docker Hub internal server error'' (Some (status r)) (Some (data r)))
               else if status r = 502 \<or> status r = 503 \<or> status r = 504 then
                 Inr (newDockerHubError ''Docker Hub service temporarily unavailable''
                        (Some (status r)) (Some (data r)))
               else
                 Inr (newDockerHubError (messageOr errorMessage (''HTTP '' @ intString (status r) @ '' error''))
                        (Some (status r)) (Some (data r)))))"

definition handleError :: "int \<Rightarrow> thrown \<Rightarrow> thrown + DockerHubError" where
  "handleError now error =
     (case error of
        ThrownDH e \<Rightarrow> Inr e
      | ThrownAxios a \<Rightarrow> handleAxiosError now a
      | ThrownError m \<Rightarrow> Inr (newDockerHubError m None None)
      | ThrownOther \<Rightarrow> Inr (newDockerHubError ''Unknown error occurred'' None None))"

definition isRetryable :: "DockerHubError \<Rightarrow> bool" where
  "isRetryable error =
     (case errorClass error of
        RateLimitErrorC _ \<Rightarrow> True
      | AuthenticationErrorC \<Rightarrow> False
      | DockerHubErrorC \<Rightarrow>
          (case statusCode error of
             Some c \<Rightarrow> if c \<noteq> 0 then c \<ge> 500 \<or> c = 429 else False
           | None \<Rightarrow> False))"

text \<open>
  \<open>getRetryDelay\<close> at the time \<open>now\<close>; the retry loop calls it with an attempt number
  that is at least 1.
\<close>

definition getRetryDelay :: "int \<Rightarrow> DockerHubError \<Rightarrow> nat \<Rightarrow> jsnum" where
  "getRetryDelay now error attempt =
     (case errorClass error of
        RateLimitErrorC resetT \<Rightarrow> js_max0 (js_sub resetT (Num now))
      | _ \<Rightarrow> Num (min 30000 (1000 * 2 ^ (attempt - 1))))"


section \<open>The environment: configuration, network and clock\<close>

record AuthCredentials =
  username :: "string option"
  password :: "string option"
  accessToken :: "string option"

record RegistryAuth =
  url :: string
  credentials :: AuthCredentials

text \<open>The body of a token response, as the interface \<open>DockerHubAuthResponse\<close> declares it.\<close>

record DockerHubAuthResponse =
  token :: string
  expires_in :: "int option"

record AuthTokenInfo =
  cachedToken :: string
  expiresAt :: int

text \<open>
  An outbound request: the \<open>POST\<close> of the auth manager to a token endpoint (URL, the form
  fields \<open>service\<close> and \<open>scope\<close>, the Basic credentials), or a \<open>GET\<close> (URL and the headers
  given at the call).
\<close>

datatype request =
    TokenPost string string "string option" string string
  | Get string "(string \<times> string) list"

text \<open>
  What the network answers. A token endpoint sends no response, grants a token (a 2xx
  response with a body of the declared interface) or refuses with a response whose status
  is outside 2xx. Any other endpoint sends no response or a response.
\<close>

datatype tokenReply = TokenNoResponse string | TokenGranted DockerHubAuthResponse
  | TokenRefused AxiosResponse

datatype httpReply = NoResponse string | Response AxiosResponse

text \<open>
  The environment of a run. The network is a function of the requests sent before, the
  time of sending and the request; it gives the reply and the time the exchange takes.
  \<open>parseURL u\<close> stands for \<open>new URL(u)\<close>: the pair of \<open>protocol\<close> and \<open>hostname\<close>, or
  \<open>None\<close> where the constructor throws. \<open>toISOString t\<close> stands for
  \<open>new Date(t).toISOString()\<close>.
\<close>

record env =
  dockerhub :: AuthCredentials
  tokenEndpoint :: "request list \<Rightarrow> int \<Rightarrow> request \<Rightarrow> tokenReply \<times> nat"
  http :: "request list \<Rightarrow> int \<Rightarrow> request \<Rightarrow> httpReply \<times> nat"
  parseURL :: "string \<Rightarrow> (string \<times> string) option"
  toISOString :: "int \<Rightarrow> string"

text \<open>
  The state of the process: the clock (\<open>Date.now()\<close>, which only an \<open>await\<close> advances), the
  singleton rate limiter, the token cache of the auth manager, and the requests sent so
  far. Output to the console is not part of the model.
\<close>

record world =
  clock :: int
  rateLimiter :: RateLimiter
  tokenCache :: "string \<rightharpoonup> AuthTokenInfo"
  sent :: "request list"

type_synonym 'a async = "world \<Rightarrow> (thrown + 'a) \<times> world"

text \<open>
  \<open>await new Promise(resolve => setTimeout(resolve, d))\<close>; the timer fires when it is
  due.
\<close>

definition sleep :: "int \<Rightarrow> world \<Rightarrow> world" where
  "sleep d w = w\<lparr>clock := clock w + d\<rparr>"

section \<open>Rate-limited execution\<close>

definition waitForReset :: "string \<Rightarrow> world \<Rightarrow> world" where
  "waitForReset key w =
     (let info = getInfo (clock w) key (rateLimiter w)
      in if js_gt (remaining info) (Num 0) then w
         else (let waitTime = reset info - clock w
               in if waitTime > 0 then sleep waitTime w else w))"

definition execute :: "env \<Rightarrow> 'a async \<Rightarrow> string \<Rightarrow> bool \<Rightarrow> 'a async" where
  "execute E fn key throwOnLimit w =
     (case isAllowed (clock w) key (rateLimiter w) of
        (True, l) \<Rightarrow> fn (w\<lparr>rateLimiter := l\<rparr>)
      | (False, l) \<Rightarrow>
          (let w1 = w\<lparr>rateLimiter := l\<rparr>
           in if throwOnLimit
              then (let info = getInfo (clock w1) key (rateLimiter w1)
                    in (Inl (ThrownDH (newRateLimitError
                          (''Rate limit exceeded. Try again at '' @ toISOString E (reset info))
                          (Num (reset info)))), w1))
              else fn (waitForReset key w1)))"

section \<open>The retry wrapper\<close>

text \<open>
  The wrapper, with a record of what it did: one entry per call of the wrapped function.
  The call returned; or its error was normalised and retried (the error, the time of the
  catch, the delay computed, the time at which the next attempt starts); or its error was
  normalised and thrown to the caller (the error, the time of the catch); or normalising
  the error threw. \<open>maxRetries\<close> and \<open>attempt\<close> are counts. After the loop the source
  throws \<open>lastError\<close>, which is \<open>undefined\<close> when no attempt was made.
\<close>

datatype retryStep = Returned | Retried DockerHubError int jsnum int
  | Surfaced DockerHubError int | Escaped thrown

function attemptLoop ::
  "'a async \<Rightarrow> nat \<Rightarrow> nat \<Rightarrow> DockerHubError option \<Rightarrow> world \<Rightarrow> ((thrown + 'a) \<times> world) \<times> retryStep list"
where
  "attemptLoop fn maxRetries attempt lastError w =
     (if attempt \<le> maxRetries then
        (case fn w of
           (Inr v, w1) \<Rightarrow> ((Inr v, w1), [Returned])
         | (Inl error, w1) \<Rightarrow>
             (case handleError (clock w1) error of
                Inl t \<Rightarrow> ((Inl t, w1), [Escaped t])
              | Inr e \<Rightarrow>
                  if attempt = maxRetries \<or> \<not> isRetryable e
                  then ((Inl (ThrownDH e), w1), [Surfaced e (clock w1)])
                  else (let delay = getRetryDelay (clock w1) e attempt;
                            w2 = (case delay of
                                    Num d \<Rightarrow> if d > 0 then sleep d w1 else w1
                                  | NaN \<Rightarrow> w1);
                            rest = attemptLoop fn maxRetries (attempt + 1) (Some e) w2
                        in (fst rest, Retried e (clock w1) delay (clock w2) # snd rest))))
      else ((case lastError of Some e \<Rightarrow> Inl (ThrownDH e) | None \<Rightarrow> Inl ThrownOther, w), []))"
  by pat_completeness auto
termination
  by (relation "measure (\<lambda>(fn, maxRetries, attempt, lastError, w). maxRetries + 1 - attempt)") auto

declare attemptLoop.simps [simp del]

definition withErrorHandling :: "'a async \<Rightarrow> nat \<Rightarrow> 'a async" where
  "withErrorHandling fn maxRetries w = fst (attemptLoop fn maxRetries 1 None w)"

section \<open>Auth manager (auth/auth-manager)\<close>

text \<open>
  The first match of \<open>/realm="([^"]+)"/\<close> in a header value: at the first position where
  \<open>realm="\<close> is followed by at least one character other than \<open>"\<close> and then by \<open>"\<close>.
\<close>

fun stripPrefix :: "string \<Rightarrow> string \<Rightarrow> string option" where
  "stripPrefix [] s = Some s"
| "stripPrefix (p # ps) [] = None"
| "stripPrefix (p # ps) (c # cs) = (if p = c then stripPrefix ps cs else None)"

definition realmAt :: "string \<Rightarrow> string option" where
  "realmAt s =
     (case stripPrefix (''realm='' @ [CHR 0x22]) s of
        None \<Rightarrow> None
      | Some r \<Rightarrow>
          (let v = takeWhile (\<lambda>c. c \<noteq> CHR 0x22) r;
               r' = dropWhile (\<lambda>c. c \<noteq> CHR 0x22) r
           in if v \<noteq> [] \<and> r' \<noteq> [] then Some v else None))"

fun matchRealm :: "string \<Rightarrow> string option" where
  "matchRealm [] = None"
| "matchRealm (c # cs) =
     (case realmAt (c # cs) of Some v \<Rightarrow> Some v | None \<Rightarrow> matchRealm cs)"

text \<open>
  \<open>discoverAuthEndpoint\<close>: the probe resolves only on status 401 (\<open>validateStatus\<close>); no
  response, any other status, and a failing \<open>new URL\<close> all end in the \<open>catch\<close>.
\<close>

definition discoverAuthEndpoint :: "env \<Rightarrow> string \<Rightarrow> world \<Rightarrow> string option \<times> world" where
  "discoverAuthEndpoint E registryUrl w =
     (let req = Get (registryUrl @ ''/v2/'') [];
          (reply, dt) = http E (sent w) (clock w) req;
          w1 = w\<lparr>sent := sent w @ [req], clock := clock w + int dt\<rparr>
      in case reply of
           NoResponse m \<Rightarrow> (None, w1)
         | Response r \<Rightarrow>
             if status r \<noteq> 401 then (None, w1)
             else (case (case headers r ''www-authenticate'' of
                           Some wwwAuth \<Rightarrow> if wwwAuth \<noteq> [] then matchRealm wwwAuth else None
                         | None \<Rightarrow> None) of
                     Some realm \<Rightarrow> (Some realm, w1)
                   | None \<Rightarrow>
                       (case parseURL E registryUrl of
                          None \<Rightarrow> (None, w1)
                        | Some (protocol, hostname) \<Rightarrow>
                            (Some (protocol @ ''//auth.'' @ hostname @ ''/token''), w1))))"

text \<open>The rejection the HTTP library builds from a reply that does not resolve.\<close>

definition statusRejection :: "AxiosResponse \<Rightarrow> thrown" where
  "statusRejection r = ThrownAxios \<lparr>ax_response = Some r, ax_request = True,
     ax_message = ''Request failed with status code '' @ intString (status r)\<rparr>"

definition networkRejection :: "string \<Rightarrow> thrown" where
  "networkRejection m = ThrownAxios \<lparr>ax_response = None, ax_request = True, ax_message = m\<rparr>"

text \<open>
  The token request shared by both acquisition paths, from the \<open>post\<close> to the \<open>catch\<close>:
  the result is the token, or the normalised error, or what the normalisation threw.
\<close>

definition requestToken ::
  "env \<Rightarrow> request \<Rightarrow> string \<Rightarrow> world \<Rightarrow> (thrown + DockerHubError + string) \<times> world" where
  "requestToken E req cacheKey w =
     (let (reply, dt) = tokenEndpoint E (sent w) (clock w) req;
          w1 = w\<lparr>sent := sent w @ [req], clock := clock w + int dt\<rparr>
      in case reply of
           TokenGranted body \<Rightarrow>
             (let lifetime = (case expires_in body of
                                Some n \<Rightarrow> if n \<noteq> 0 then n else 3600
                              | None \<Rightarrow> 3600);
                  expiry = clock w1 + lifetime * 1000
              in (Inr (Inr (token body)),
                  w1\<lparr>tokenCache := (tokenCache w1)(cacheKey \<mapsto>
                        \<lparr>cachedToken = token body, expiresAt = expiry\<rparr>)\<rparr>))
         | TokenRefused r \<Rightarrow>
             (case handleError (clock w1) (statusRejection r) of
                Inl t \<Rightarrow> (Inl t, w1)
              | Inr e \<Rightarrow> (Inr (Inl e), w1))
         | TokenNoResponse m \<Rightarrow>
             (case handleError (clock w1) (networkRejection m) of
                Inl t \<Rightarrow> (Inl t, w1)
              | Inr e \<Rightarrow> (Inr (Inl e), w1)))"

definition cacheLookup :: "world \<Rightarrow> string \<Rightarrow> string option" where
  "cacheLookup w cacheKey =
     (case tokenCache w cacheKey of
        Some cached \<Rightarrow> if expiresAt cached > clock w then Some (cachedToken cached) else None
      | None \<Rightarrow> None)"

definition getDockerHubToken :: "env \<Rightarrow> string option \<Rightarrow> (string option) async" where
  "getDockerHubToken E scope w =
     (let creds = dockerhub E
      in if truthyStr (accessToken creds) then (Inr (accessToken creds), w)
         else if \<not> truthyStr (username creds) \<or> \<not> truthyStr (password creds) then (Inr None, w)
         else (let cacheKey = ''dockerhub:'' @ strOr scope ''default''
               in case cacheLookup w cacheKey of
                    Some t \<Rightarrow> (Inr (Some t), w)
                  | None \<Rightarrow>
                      (case requestToken E
                              (TokenPost ''https://auth.docker.io/token'' ''registry.docker.io''
                                 (if truthyStr scope then scope else None)
                                 (the (username creds)) (the (password creds)))
                              cacheKey w of
                         (Inr (Inr t), w1) \<Rightarrow> (Inr (Some t), w1)
                       | (Inl t, w1) \<Rightarrow> (Inl t, w1)
                       | (Inr (Inl dockerHubError), w1) \<Rightarrow>
                           if errorClass dockerHubError = AuthenticationErrorC
                           then (Inl (ThrownDH dockerHubError), w1)
                           else (Inr None, w1))))"

text \<open>
  \<open>getPrivateRegistryToken\<close>. The form of the token request holds
  \<open>new URL(url).hostname\<close>, computed inside the \<open>try\<close>: where the constructor throws, its
  \<open>TypeError\<close> (\<open>Invalid URL\<close>) is normalised and thrown, and nothing is sent.
\<close>

definition getPrivateRegistryToken :: "env \<Rightarrow> RegistryAuth \<Rightarrow> string option \<Rightarrow> (string option) async" where
  "getPrivateRegistryToken E registryAuth scope w =
     (let creds = credentials registryAuth
      in if \<not> truthyStr (username creds) \<or> \<not> truthyStr (password creds) then (Inr None, w)
         else (case discoverAuthEndpoint E (url registryAuth) w of
                 (None, w0) \<Rightarrow>
                   (Inl (ThrownDH (newAuthenticationError
                      (''Could not discover authentication endpoint for '' @ url registryAuth))), w0)
               | (Some authUrl, w0) \<Rightarrow>
                   if authUrl = []
                   then (Inl (ThrownDH (newAuthenticationError
                      (''Could not discover authentication endpoint for '' @ url registryAuth))), w0)
                   else
                   (let cacheKey = ''registry:'' @ url registryAuth @ '':'' @ strOr scope ''default''
                    in case cacheLookup w0 cacheKey of
                         Some t \<Rightarrow> (Inr (Some t), w0)
                       | None \<Rightarrow>
                           (case parseURL E (url registryAuth) of
                              None \<Rightarrow> (Inl (ThrownDH (newDockerHubError ''Invalid URL'' None None)), w0)
                            | Some (protocol, hostname) \<Rightarrow>
                                (case requestToken E
                                        (TokenPost authUrl hostname
                                           (if truthyStr scope then scope else None)
                                           (the (username creds)) (the (password creds)))
                                        cacheKey w0 of
                                   (Inr (Inr t), w1) \<Rightarrow> (Inr (Some t), w1)
                                 | (Inl t, w1) \<Rightarrow> (Inl t, w1)
                                 | (Inr (Inl dockerHubError), w1) \<Rightarrow>
                                     (Inl (ThrownDH dockerHubError), w1))))))"

definition createAuthHeaders ::
  "env \<Rightarrow> RegistryAuth option \<Rightarrow> string option \<Rightarrow> ((string \<times> string) list) async" where
  "createAuthHeaders E registryAuth scope w =
     (case (case registryAuth of
              Some ra \<Rightarrow> getPrivateRegistryToken E ra scope w
            | None \<Rightarrow> getDockerHubToken E scope w) of
        (Inl t, w1) \<Rightarrow> (Inl t, w1)
      | (Inr tok, w1) \<Rightarrow>
          (Inr (if truthyStr tok then [(''Authorization'', ''Bearer '' @ the tok)] else []), w1))"


section \<open>Registry client (clients/dockerhub)\<close>

text \<open>\<open>repository.split('/')\<close>: never empty; the empty string gives one empty segment.\<close>

fun splitOn :: "char \<Rightarrow> string \<Rightarrow> string list" where
  "splitOn c [] = [[]]"
| "splitOn c (x # xs) =
     (if x = c then [] # splitOn c xs
      else (case splitOn c xs of
              p # ps \<Rightarrow> (x # p) # ps
            | [] \<Rightarrow> [[x]]))"

definition parseRepository :: "string \<Rightarrow> thrown + (string \<times> string)" where
  "parseRepository repository =
     (let parts = splitOn CHR ''/'' repository
      in if length parts = 1 then Inr (''library'', parts ! 0)
         else if length parts = 2 then Inr (parts ! 0, parts ! 1)
         else Inl (ThrownError (''Invalid repository format: '' @ repository)))"

text \<open>
  A \<open>GET\<close> through the client's HTTP instance. Its response interceptor feeds the headers of
  every response, resolved or rejected, to the rate limiter under the key \<open>default\<close>; the
  library resolves a response with a status in 200..299 and rejects any other.
\<close>

definition clientGet :: "env \<Rightarrow> string \<Rightarrow> (string \<times> string) list \<Rightarrow> AxiosResponse async" where
  "clientGet E target hs w =
     (let req = Get target hs;
          (reply, dt) = http E (sent w) (clock w) req;
          w1 = w\<lparr>sent := sent w @ [req], clock := clock w + int dt\<rparr>
      in case reply of
           NoResponse m \<Rightarrow> (Inl (networkRejection m), w1)
         | Response r \<Rightarrow>
             (let w2 = w1\<lparr>rateLimiter := updateFromHeaders (headers r) ''default'' (rateLimiter w1)\<rparr>
              in if 200 \<le> status r \<and> status r < 300 then (Inr r, w2)
                 else (Inl (statusRejection r), w2)))"

record VulnerabilitySummary =
  total :: json
  high :: json
  medium :: json
  low :: json
  unknown :: json

record VulnerabilityReport =
  namespace :: string
  repository :: string
  tag :: string
  summary :: VulnerabilitySummary
  vulnerabilities :: json

text \<open>\<open>scanData.k || d\<close>.\<close>

definition propOr :: "json \<Rightarrow> string \<Rightarrow> json \<Rightarrow> json" where
  "propOr v k d = (case getProp v k of Some x \<Rightarrow> if truthy x then x else d | None \<Rightarrow> d)"

definition transformScanResults ::
  "json \<Rightarrow> string \<Rightarrow> string \<Rightarrow> string \<Rightarrow> thrown + VulnerabilityReport" where
  "transformScanResults scanData ns name tg =
     (if scanData = JNull then Inl (ThrownError (typeErrorNull ''vulnerability_count''))
      else Inr \<lparr> namespace = ns, repository = name, tag = tg,
                 summary = \<lparr> total = propOr scanData ''vulnerability_count'' (JNum 0),
                             high = propOr scanData ''high_vulnerability_count'' (JNum 0),
                             medium = propOr scanData ''medium_vulnerability_count'' (JNum 0),
                             low = propOr scanData ''low_vulnerability_count'' (JNum 0),
                             unknown = propOr scanData ''unknown_vulnerability_count'' (JNum 0) \<rparr>,
                 vulnerabilities = propOr scanData ''vulnerabilities'' (JArr []) \<rparr>)"

text \<open>The function that \<open>getVulnerabilities\<close> hands to the retry wrapper.\<close>

definition scanEndpoint :: "string \<Rightarrow> string \<Rightarrow> string \<Rightarrow> string" where
  "scanEndpoint ns name tg = ''repositories/'' @ ns @ ''/'' @ name @ ''/tags/'' @ tg @ ''/scan''"

definition scanRequest :: "env \<Rightarrow> string \<Rightarrow> AxiosResponse async" where
  "scanRequest E endpoint w =
     (case createAuthHeaders E None None w of
        (Inl t, w1) \<Rightarrow> (Inl t, w1)
      | (Inr authHeaders, w1) \<Rightarrow>
          clientGet E (''https://hub.docker.com/v2/'' @ endpoint @ ''/'') authHeaders w1)"

definition getVulnerabilitiesOnce :: "env \<Rightarrow> string \<Rightarrow> string \<Rightarrow> (VulnerabilityReport option) async" where
  "getVulnerabilitiesOnce E repo tg w =
     (case parseRepository repo of
        Inl t \<Rightarrow> (Inl t, w)
      | Inr (ns, name) \<Rightarrow>
          (let attempt = (case execute E (scanRequest E (scanEndpoint ns name tg)) ''default'' False w of
                            (Inl t, w1) \<Rightarrow> (Inl t, w1)
                          | (Inr r, w1) \<Rightarrow>
                              (case transformScanResults (data r) ns name tg of
                                 Inl t \<Rightarrow> (Inl t, w1)
                               | Inr report \<Rightarrow> (Inr (Some report), w1)))
           in case attempt of
                (Inr v, w1) \<Rightarrow> (Inr v, w1)
              | (Inl error, w1) \<Rightarrow>
                  (case handleError (clock w1) error of
                     Inl t \<Rightarrow> (Inl t, w1)
                   | Inr dockerHubError \<Rightarrow>
                       if statusCode dockerHubError = Some 404 then (Inr None, w1)
                       else (Inl (ThrownDH dockerHubError), w1))))"

definition getVulnerabilities :: "env \<Rightarrow> string \<Rightarrow> string \<Rightarrow> (VulnerabilityReport option) async" where
  "getVulnerabilities E repo tg = withErrorHandling (getVulnerabilitiesOnce E repo tg) 3"

section \<open>Cache keys (cache/cache-manager)\<close>

text \<open>
  \<open>encodeURIComponent\<close> on the UTF-8 bytes of a string: a letter, a digit and the marks
  \<open>- _ . ! ~ * ' ( )\<close> stay, any other byte becomes \<open>%XX\<close> in upper-case hexadecimal.
\<close>

definition unreserved :: "char \<Rightarrow> bool" where
  "unreserved c =
     ((CHR ''a'' \<le> c \<and> c \<le> CHR ''z'') \<or> (CHR ''A'' \<le> c \<and> c \<le> CHR ''Z'') \<or> isDigit c
      \<or> c \<in> set (''-_.!~*()'' @ [CHR 0x27]))"

definition hexDigit :: "nat \<Rightarrow> char" where
  "hexDigit n = (if n mod 16 < 10 then char_of (48 + n mod 16) else char_of (55 + n mod 16))"

definition encodeByte :: "char \<Rightarrow> string" where
  "encodeByte c =
     (if unreserved c then [c]
      else [CHR ''%'', hexDigit (of_char c div 16), hexDigit (of_char c mod 16)])"

definition encodeURIComponent :: "string \<Rightarrow> string" where
  "encodeURIComponent s = concat (map encodeByte s)"

text \<open>
  \<open>generateKey\<close>. The parameter object is the list of its entries in insertion order;
  \<open>Object.keys(params).sort()\<close> orders the names by their code units, here bytes.
\<close>

text \<open>\<open>String(params[key])\<close> and \<open>`${key}=${encodeURIComponent(String(params[key]))}`\<close>.\<close>

definition paramValue :: "(string \<times> json) list \<Rightarrow> string \<Rightarrow> string" where
  "paramValue params key = (case map_of params key of Some v \<Rightarrow> js_String v | None \<Rightarrow> ''undefined'')"

definition paramString :: "(string \<times> json) list \<Rightarrow> string \<Rightarrow> string" where
  "paramString params key = key @ ''='' @ encodeURIComponent (paramValue params key)"

definition generateKey :: "string \<Rightarrow> (string \<times> json) list \<Rightarrow> string" where
  "generateKey endpoint params =
     (let sortedParams = join ''&'' (map (paramString params) (sort (map fst params)))
      in endpoint @ (if sortedParams \<noteq> [] then ''?'' @ sortedParams else []))"

section \<open>Sample environments and states\<close>

text \<open>A machine without credentials and without network.\<close>

definition offlineEnv :: env where
  "offlineEnv = \<lparr> dockerhub = \<lparr>username = None, password = None, accessToken = None\<rparr>,
                   tokenEndpoint = (\<lambda>_ _ _. (TokenNoResponse ''Network Error'', 0)),
                   http = (\<lambda>_ _ _. (NoResponse ''Network Error'', 0)),
                   parseURL = (\<lambda>_. None),
                   toISOString = (\<lambda>_. []) \<rparr>"

text \<open>At time 5 the key \<open>default\<close> has used both requests of a window that ends at 1000.\<close>

definition fullWorld :: world where
  "fullWorld = \<lparr> clock = 5,
                  rateLimiter = \<lparr> limits = [''default'' \<mapsto> \<lparr>count = Num 2, resetTime = 1000\<rparr>],
                                  maxRequests = 2, windowMs = 1000 \<rparr>,
                  tokenCache = Map.empty, sent = [] \<rparr>"

text \<open>A service that answers every call with the status 503, at once.\<close>

definition unavailable :: AxiosResponse where
  "unavailable = \<lparr>status = 503, data = JNull, headers = Map.empty\<rparr>"

definition alwaysUnavailable :: "unit async" where
  "alwaysUnavailable w = (Inl (statusRejection unavailable), w)"

definition unavailableError :: DockerHubError where
  "unavailableError = newDockerHubError ''Docker Hub service temporarily unavailable'' (Some 503) (Some JNull)"

text \<open>
  A private registry at \<open>https://registry.example.com\<close> whose \<open>/v2/\<close> answers 401 with a
  challenge that names the token endpoint, and an account on it. \<open>exampleURL\<close> is
  \<open>new URL\<close> on that address.
\<close>

definition challenge :: AxiosResponse where
  "challenge = \<lparr> status = 401, data = JNull,
                  headers = [''www-authenticate'' \<mapsto>
                    ''Bearer realm='' @ [CHR 0x22] @ ''https://auth.example.com/token'' @ [CHR 0x22]
                      @ '',service='' @ [CHR 0x22] @ ''registry.example.com'' @ [CHR 0x22]] \<rparr>"

definition exampleURL :: "string \<Rightarrow> (string \<times> string) option" where
  "exampleURL u = (if u = ''https://registry.example.com'' then Some (''https:'', ''registry.example.com'')
                   else None)"

definition exampleRegistry :: RegistryAuth where
  "exampleRegistry = \<lparr> url = ''https://registry.example.com'',
                        credentials = \<lparr>username = Some ''user'', password = Some ''secret'',
                                        accessToken = None\<rparr> \<rparr>"

definition granted :: DockerHubAuthResponse where
  "granted = \<lparr>token = ''T0'', expires_in = Some 300\<rparr>"

text \<open>The registry answers every probe with the challenge; every exchange takes 10 ms.\<close>

definition registryEnv :: env where
  "registryEnv = \<lparr> dockerhub = \<lparr>username = None, password = None, accessToken = None\<rparr>,
                    tokenEndpoint = (\<lambda>_ _ _. (TokenGranted granted, 10)),
                    http = (\<lambda>_ _ _. (Response challenge, 10)),
                    parseURL = exampleURL,
                    toISOString = (\<lambda>_. []) \<rparr>"

text \<open>The registry answers the first request only; after it the network is down.\<close>

definition flakyRegistryEnv :: env where
  "flakyRegistryEnv = registryEnv \<lparr> http := (\<lambda>earlier _ _. if earlier = [] then (Response challenge, 10)
                                                         else (NoResponse ''Network Error'', 10)) \<rparr>"

text \<open>A registry that needs no authentication answers the probe with 200.\<close>

definition openRegistryEnv :: env where
  "openRegistryEnv = registryEnv \<lparr> http := (\<lambda>_ _ _.
       (Response \<lparr>status = 200, data = JObj [], headers = Map.empty\<rparr>, 10)) \<rparr>"

text \<open>
  Docker Hub credentials that the token endpoint refuses with 401, and a scan endpoint
  that answers 404.
\<close>

definition refusal :: AxiosResponse where
  "refusal = \<lparr> status = 401, data = JObj [(''details'', JStr ''incorrect username or password'')],
                headers = Map.empty \<rparr>"

definition badCredentialsEnv :: env where
  "badCredentialsEnv = \<lparr> dockerhub = \<lparr>username = Some ''user'', password = Some ''wrong'',
                                        accessToken = None\<rparr>,
                          tokenEndpoint = (\<lambda>_ _ _. (TokenRefused refusal, 10)),
                          http = (\<lambda>_ _ _. (NoResponse ''Network Error'', 10)),
                          parseURL = exampleURL,
                          toISOString = (\<lambda>_. []) \<rparr>"

definition notFound :: AxiosResponse where
  "notFound = \<lparr> status = 404, data = JObj [(''message'', JStr ''scan not found'')],
                 headers = Map.empty \<rparr>"

definition noScanEnv :: env where
  "noScanEnv = offlineEnv \<lparr> http := (\<lambda>_ _ _. (Response notFound, 10)) \<rparr>"

text \<open>
  An upstream that answers every request with the status 404 and a body whose only field
  \<open>errors\<close> is the array \<open>[null]\<close>.
\<close>

definition malformedNotFound :: AxiosResponse where
  "malformedNotFound = \<lparr> status = 404, data = JObj [(''errors'', JArr [JNull])],
                          headers = Map.empty \<rparr>"

definition malformedScanEnv :: env where
  "malformedScanEnv = offlineEnv \<lparr> http := (\<lambda>_ _ _. (Response malformedNotFound, 10)) \<rparr>"

text \<open>A process that has just started, at time 0, with the configured limits 100 per hour.\<close>

definition startWorld :: world where
  "startWorld = \<lparr> clock = 0, rateLimiter = newRateLimiter 100 3600 None None,
                   tokenCache = Map.empty, sent = [] \<rparr>"

text \<open>
  The state after the first token acquisition for the private registry: the probe and the
  token request have been sent, and the token is cached until 300020.
\<close>

definition afterFirst :: world where
  "afterFirst = startWorld\<lparr>sent := [Get ''https://registry.example.com/v2/'' [],
                     TokenPost ''https://auth.example.com/token'' ''registry.example.com'' None ''user'' ''secret''],
                   clock := 20,
                   tokenCache := [''registry:https://registry.example.com:default'' \<mapsto>
                                    \<lparr>cachedToken = ''T0'', expiresAt = 300020\<rparr>]\<rparr>"

section \<open>The states in which the attempts of the retry wrapper start\<close>

text \<open>
  \<open>nextStart fn attempt w\<close>: the attempt numbered \<open>attempt\<close> calls \<open>fn\<close> in \<open>w\<close>; when
  that call fails and the loop goes on, the next attempt starts in the state the call left,
  after the delay. \<open>attemptStart fn attempt i w\<close> is the state reached in this way after
  \<open>i\<close> attempts, the first of them numbered \<open>attempt\<close> and started in \<open>w\<close>.
\<close>

definition nextStart :: "'a async \<Rightarrow> nat \<Rightarrow> world \<Rightarrow> world" where
  "nextStart fn attempt w =
     (case fn w of
        (Inr v, w1) \<Rightarrow> w1
      | (Inl error, w1) \<Rightarrow>
          (case handleError (clock w1) error of
             Inl t \<Rightarrow> w1
           | Inr e \<Rightarrow>
               (case getRetryDelay (clock w1) e attempt of
                  Num d \<Rightarrow> if d > 0 then sleep d w1 else w1
                | NaN \<Rightarrow> w1)))"

fun attemptStart :: "'a async \<Rightarrow> nat \<Rightarrow> nat \<Rightarrow> world \<Rightarrow> world" where
  "attemptStart fn attempt 0 w = w"
| "attemptStart fn attempt (Suc i) w = attemptStart fn (Suc attempt) i (nextStart fn attempt w)"

section \<open>Sample failures of a wrapped function\<close>

text \<open>
  A response with the status 600, and a 429 whose reset header holds a date instead of
  Unix seconds; functions that fail with them at every call, at once; and the errors they
  normalise to.
\<close>

definition sixHundred :: AxiosResponse where
  "sixHundred = \<lparr>status = 600, data = JNull, headers = Map.empty\<rparr>"

definition alwaysSixHundred :: "unit async" where
  "alwaysSixHundred w = (Inl (statusRejection sixHundred), w)"

definition sixHundredError :: DockerHubError where
  "sixHundredError = newDockerHubError ''Request failed with status code 600'' (Some 600) (Some JNull)"

definition datedLimit :: AxiosResponse where
  "datedLimit = \<lparr>status = 429, data = JNull,
                  headers = [''ratelimit-reset'' \<mapsto> ''Wed, 21 Oct 2015 07:28:00 GMT'']\<rparr>"

definition alwaysDatedLimit :: "unit async" where
  "alwaysDatedLimit w = (Inl (statusRejection datedLimit), w)"

definition datedLimitError :: DockerHubError where
  "datedLimitError = newRateLimitError ''Request failed with status code 429'' NaN"

section \<open>The fixed window of the rate limiter\<close>

lemma isAllowed_fresh:
  "limits s k = None \<or> (\<exists>e. limits s k = Some e \<and> resetTime e \<le> now) \<Longrightarrow>
   isAllowed now k s = (True, s\<lparr>limits := (limits s)(k \<mapsto> \<lparr>count = Num 1, resetTime = now + windowMs s\<rparr>)\<rparr>)"
  by (auto simp: isAllowed_def Let_def split: option.splits)

lemma isAllowed_below:
  "limits s k = Some e \<Longrightarrow> now < resetTime e \<Longrightarrow> count e = Num c \<Longrightarrow> c < maxRequests s \<Longrightarrow>
   isAllowed now k s = (True, s\<lparr>limits := (limits s)(k \<mapsto> e\<lparr>count := Num (c + 1)\<rparr>)\<rparr>)"
  by (simp add: isAllowed_def Let_def)

lemma isAllowed_full:
  "limits s k = Some e \<Longrightarrow> now < resetTime e \<Longrightarrow> count e = Num c \<Longrightarrow> maxRequests s \<le> c \<Longrightarrow>
   isAllowed now k s = (False, s)"
  by (simp add: isAllowed_def Let_def)

text \<open>
  C2. A limiter with \<open>maxRequests = 2\<close> and \<open>windowMs = 1000\<close>, and a key \<open>k\<close> that has no
  entry or whose window is over at \<open>t1\<close>. Four calls of \<open>isAllowed k\<close> follow, at the times
  \<open>t1 \<le> t2 \<le> t3\<close> inside the window opened at \<open>t1\<close> and at \<open>t4\<close> after it, with no header
  update in between. The first and the second call answer true, and the entry then counts
  2 in the window ending at \<open>t1 + 1000\<close>; the third call answers false and leaves the
  limiter as it was; a call at \<open>t4\<close> answers true and resets the entry to the count 1 and the
  reset time \<open>t4 + 1000\<close>.
\<close>

theorem isAllowed_fixed_window:
  assumes m: "maxRequests s = 2" and win: "windowMs s = 1000"
    and fresh: "limits s k = None \<or> (\<exists>e. limits s k = Some e \<and> resetTime e \<le> t1)"
    and t12: "t1 \<le> t2" and t23: "t2 \<le> t3" and t3: "t3 < t1 + 1000" and t4: "t1 + 1000 \<le> t4"
  shows "fst (isAllowed t1 k s)
       \<and> fst (isAllowed t2 k (snd (isAllowed t1 k s)))
       \<and> limits (snd (isAllowed t2 k (snd (isAllowed t1 k s)))) k
            = Some \<lparr>count = Num 2, resetTime = t1 + 1000\<rparr>
       \<and> isAllowed t3 k (snd (isAllowed t2 k (snd (isAllowed t1 k s))))
            = (False, snd (isAllowed t2 k (snd (isAllowed t1 k s))))
       \<and> fst (isAllowed t4 k (snd (isAllowed t2 k (snd (isAllowed t1 k s)))))
       \<and> limits (snd (isAllowed t4 k (snd (isAllowed t2 k (snd (isAllowed t1 k s)))))) k
            = Some \<lparr>count = Num 1, resetTime = t4 + 1000\<rparr>"
proof -
  define s1 where "s1 = s\<lparr>limits := (limits s)(k \<mapsto> \<lparr>count = Num 1, resetTime = t1 + 1000\<rparr>)\<rparr>"
  define s2 where "s2 = s1\<lparr>limits := (limits s1)(k \<mapsto> \<lparr>count = Num 2, resetTime = t1 + 1000\<rparr>)\<rparr>"
  have c1: "isAllowed t1 k s = (True, s1)"
    using isAllowed_fresh [OF fresh] win by (simp add: s1_def)
  have c2: "isAllowed t2 k s1 = (True, s2)"
    using isAllowed_below [of s1 k "\<lparr>count = Num 1, resetTime = t1 + 1000\<rparr>" t2 1] m t12 t23 t3
    by (simp add: s1_def s2_def)
  have c3: "isAllowed t3 k s2 = (False, s2)"
    using isAllowed_full [of s2 k "\<lparr>count = Num 2, resetTime = t1 + 1000\<rparr>" t3 2] m t3
    by (simp add: s1_def s2_def)
  have c4: "isAllowed t4 k s2
            = (True, s2\<lparr>limits := (limits s2)(k \<mapsto> \<lparr>count = Num 1, resetTime = t4 + windowMs s2\<rparr>)\<rparr>)"
    by (rule isAllowed_fresh) (use t4 in \<open>simp add: s2_def\<close>)
  show ?thesis
    using c1 c2 c3 c4 win by (simp add: s1_def s2_def)
qed

theorem isAllowed_fixed_window_witness:
  "maxRequests (newRateLimiter 100 3600 (Some 2) (Some 1)) = 2
   \<and> windowMs (newRateLimiter 100 3600 (Some 2) (Some 1)) = 1000
   \<and> limits (newRateLimiter 100 3600 (Some 2) (Some 1)) ''k'' = None
   \<and> fst (isAllowed 0 ''k'' (newRateLimiter 100 3600 (Some 2) (Some 1)))
   \<and> fst (isAllowed 10 ''k'' (snd (isAllowed 0 ''k'' (newRateLimiter 100 3600 (Some 2) (Some 1)))))
   \<and> \<not> fst (isAllowed 999 ''k'' (snd (isAllowed 10 ''k'' (snd (isAllowed 0 ''k''
          (newRateLimiter 100 3600 (Some 2) (Some 1)))))))
   \<and> fst (isAllowed 1000 ''k'' (snd (isAllowed 10 ''k'' (snd (isAllowed 0 ''k''
          (newRateLimiter 100 3600 (Some 2) (Some 1)))))))"
  using isAllowed_fixed_window [of "newRateLimiter 100 3600 (Some 2) (Some 1)" "''k''" 0 10 999 1000]
  by (simp add: newRateLimiter_def)

section \<open>Synchronising the limiter with the server\<close>

text \<open>
  C6. Let \<open>lim\<close>, \<open>rem\<close> and \<open>rst\<close> be what \<open>updateFromHeaders\<close> parses from the limit,
  remaining and reset headers. A positive limit overwrites \<open>maxRequests\<close>. A positive
  reset (in Unix seconds) overwrites the entry of the key: its reset time is the reset
  times 1000 and its count is \<open>Math.max(0, lim - rem)\<close>, which is the difference floored
  at 0 when both are numbers. In particular, after the headers limit \<open>10\<close>, remaining
  \<open>3\<close> and a reset that lies in the future, \<open>getInfo\<close> (a function of the limiter, which
  it does not change) reports 3 remaining requests and the limit 10.
\<close>

theorem updateFromHeaders_sync:
  fixes hs :: "string \<rightharpoonup> string"
  defines "lim \<equiv> parseInt (headerOr hs ''x-ratelimit-limit'' ''ratelimit-limit'')"
    and "rem \<equiv> parseInt (headerOr hs ''x-ratelimit-remaining'' ''ratelimit-remaining'')"
    and "rst \<equiv> parseInt (headerOr hs ''x-ratelimit-reset'' ''ratelimit-reset'')"
  shows "(\<forall>l. lim = Num l \<and> 0 < l \<longrightarrow> maxRequests (updateFromHeaders hs k s) = l)
       \<and> (\<forall>r. rst = Num r \<and> 0 < r \<longrightarrow>
             limits (updateFromHeaders hs k s) k
               = Some \<lparr>count = js_max0 (js_sub lim rem), resetTime = r * 1000\<rparr>)
       \<and> (\<forall>l m. lim = Num l \<and> rem = Num m \<longrightarrow> js_max0 (js_sub lim rem) = Num (max 0 (l - m)))
       \<and> (\<forall>r now. hs ''x-ratelimit-limit'' = Some ''10'' \<and> hs ''x-ratelimit-remaining'' = Some ''3''
             \<and> rst = Num r \<and> 0 \<le> now \<and> now < r * 1000 \<longrightarrow>
             remaining (getInfo now k (updateFromHeaders hs k s)) = Num 3
             \<and> limit (getInfo now k (updateFromHeaders hs k s)) = 10)"
proof (intro conjI allI impI)
  fix l assume "lim = Num l \<and> 0 < l"
  then show "maxRequests (updateFromHeaders hs k s) = l"
    unfolding lim_def by (simp add: updateFromHeaders_def Let_def split: jsnum.splits)
next
  fix r assume "rst = Num r \<and> 0 < r"
  then show "limits (updateFromHeaders hs k s) k
               = Some \<lparr>count = js_max0 (js_sub lim rem), resetTime = r * 1000\<rparr>"
    unfolding lim_def rem_def rst_def by (simp add: updateFromHeaders_def Let_def)
next
  fix l m assume "lim = Num l \<and> rem = Num m"
  then show "js_max0 (js_sub lim rem) = Num (max 0 (l - m))" by simp
next
  fix r now
  assume a: "hs ''x-ratelimit-limit'' = Some ''10'' \<and> hs ''x-ratelimit-remaining'' = Some ''3''
             \<and> rst = Num r \<and> 0 \<le> now \<and> now < r * 1000"
  have p10: "parseInt ''10'' = Num 10" and p3: "parseInt ''3'' = Num 3"
    by (simp_all add: parseInt_def isWhiteSpace_def isDigit_def digitsVal_def digitVal_def)
  have l: "lim = Num 10" and m: "rem = Num 3"
    using a p10 p3 by (simp_all add: lim_def rem_def headerOr_def)
  from a have r: "0 < r" by auto
  show "remaining (getInfo now k (updateFromHeaders hs k s)) = Num 3"
    using a l m r unfolding lim_def rem_def rst_def
    by (simp add: updateFromHeaders_def getInfo_def Let_def)
  show "limit (getInfo now k (updateFromHeaders hs k s)) = 10"
    using a l m r unfolding lim_def rem_def rst_def
    by (simp add: updateFromHeaders_def getInfo_def Let_def)
qed

theorem updateFromHeaders_sync_witness:
  "maxRequests (updateFromHeaders [''x-ratelimit-limit'' \<mapsto> ''10'', ''x-ratelimit-remaining'' \<mapsto> ''3'',
                   ''x-ratelimit-reset'' \<mapsto> ''2000''] ''default'' (newRateLimiter 100 3600 None None)) = 10
   \<and> limits (updateFromHeaders [''x-ratelimit-limit'' \<mapsto> ''10'', ''x-ratelimit-remaining'' \<mapsto> ''3'',
                   ''x-ratelimit-reset'' \<mapsto> ''2000''] ''default'' (newRateLimiter 100 3600 None None)) ''default''
       = Some \<lparr>count = Num 7, resetTime = 2000000\<rparr>
   \<and> remaining (getInfo 5 ''default'' (updateFromHeaders [''x-ratelimit-limit'' \<mapsto> ''10'',
                   ''x-ratelimit-remaining'' \<mapsto> ''3'', ''x-ratelimit-reset'' \<mapsto> ''2000''] ''default''
                   (newRateLimiter 100 3600 None None))) = Num 3
   \<and> limit (getInfo 5 ''default'' (updateFromHeaders [''x-ratelimit-limit'' \<mapsto> ''10'',
                   ''x-ratelimit-remaining'' \<mapsto> ''3'', ''x-ratelimit-reset'' \<mapsto> ''2000''] ''default''
                   (newRateLimiter 100 3600 None None))) = 10"
proof -
  have p: "parseInt ''10'' = Num 10" "parseInt ''3'' = Num 3" "parseInt ''2000'' = Num 2000"
    by (simp_all add: parseInt_def isWhiteSpace_def isDigit_def digitsVal_def digitVal_def)
  show ?thesis
    using updateFromHeaders_sync [of "[''x-ratelimit-limit'' \<mapsto> ''10'', ''x-ratelimit-remaining'' \<mapsto> ''3'',
                   ''x-ratelimit-reset'' \<mapsto> ''2000'']" "''default''" "newRateLimiter 100 3600 None None"]
    by (simp add: headerOr_def p)
qed

section \<open>Waiting for the window inside execute\<close>

text \<open>
  C10. When \<open>execute\<close>, called without \<open>throwOnLimit\<close>, finds the key rate-limited, the key
  has an entry whose window is still open, the denied check leaves the limiter unchanged,
  and the result of \<open>execute\<close> is the result of one call of \<open>fn\<close> in the state that
  differs from the initial one in the clock only, which has advanced to the reset time of
  the entry. The entry of the key is the same before the denied check and when \<open>fn\<close> runs:
  \<open>isAllowed\<close> is not called again and the count is not incremented, so the request after
  the wait is not counted in the new window.
\<close>

theorem execute_wait_not_counted:
  assumes denied: "\<not> fst (isAllowed (clock w) key (rateLimiter w))"
  shows "\<exists>e. limits (rateLimiter w) key = Some e
           \<and> clock w < resetTime e
           \<and> snd (isAllowed (clock w) key (rateLimiter w)) = rateLimiter w
           \<and> execute E fn key False w = fn (w\<lparr>clock := resetTime e\<rparr>)
           \<and> limits (rateLimiter (w\<lparr>clock := resetTime e\<rparr>)) key = Some e"
proof -
  from denied obtain e c where e: "limits (rateLimiter w) key = Some e"
    and t: "clock w < resetTime e" and c: "count e = Num c" and full: "maxRequests (rateLimiter w) \<le> c"
    by (auto simp: isAllowed_def Let_def split: option.splits if_splits elim: js_ge.elims)
  have ia: "isAllowed (clock w) key (rateLimiter w) = (False, rateLimiter w)"
    using isAllowed_full [OF e t c full] .
  have "waitForReset key w = w\<lparr>clock := resetTime e\<rparr>"
    using e t c full by (simp add: waitForReset_def getInfo_def sleep_def Let_def)
  then have "execute E fn key False w = fn (w\<lparr>clock := resetTime e\<rparr>)"
    using ia by (simp add: execute_def)
  then show ?thesis using e t ia by auto
qed

theorem execute_wait_not_counted_witness:
  "\<not> fst (isAllowed (clock fullWorld) ''default'' (rateLimiter fullWorld))
   \<and> execute offlineEnv (\<lambda>w. (Inr (clock w), w)) ''default'' False fullWorld
       = (Inr 1000, fullWorld\<lparr>clock := 1000\<rparr>)
   \<and> limits (rateLimiter (fullWorld\<lparr>clock := 1000\<rparr>)) ''default'' = Some \<lparr>count = Num 2, resetTime = 1000\<rparr>"
proof -
  have d: "\<not> fst (isAllowed (clock fullWorld) ''default'' (rateLimiter fullWorld))"
    by (simp add: fullWorld_def isAllowed_def)
  show ?thesis
    using d execute_wait_not_counted [OF d, of offlineEnv "\<lambda>w. (Inr (clock w), w)"]
    by (auto simp: fullWorld_def)
qed

section \<open>Single attempts of the retry wrapper\<close>

lemma attemptLoop_returns:
  "attempt \<le> maxRetries \<Longrightarrow> fn w = (Inr v, w1) \<Longrightarrow>
   attemptLoop fn maxRetries attempt lastError w = ((Inr v, w1), [Returned])"
  by (subst attemptLoop.simps) simp

lemma attemptLoop_escapes:
  "attempt \<le> maxRetries \<Longrightarrow> fn w = (Inl x, w1) \<Longrightarrow> handleError (clock w1) x = Inl t \<Longrightarrow>
   attemptLoop fn maxRetries attempt lastError w = ((Inl t, w1), [Escaped t])"
  by (subst attemptLoop.simps) simp

lemma attemptLoop_surfaces:
  "attempt \<le> maxRetries \<Longrightarrow> fn w = (Inl x, w1) \<Longrightarrow> handleError (clock w1) x = Inr e \<Longrightarrow>
   attempt = maxRetries \<or> \<not> isRetryable e \<Longrightarrow>
   attemptLoop fn maxRetries attempt lastError w = ((Inl (ThrownDH e), w1), [Surfaced e (clock w1)])"
  by (subst attemptLoop.simps) auto

section \<open>Parsing a repository reference\<close>

lemma splitOn_not_Nil: "splitOn c s \<noteq> []"
  by (induction s) (auto split: list.splits)

lemma splitOn_no_sep: "c \<notin> set s \<Longrightarrow> splitOn c s = [s]"
  by (induction s) auto

lemma splitOn_sep: "c \<notin> set a \<Longrightarrow> splitOn c (a @ c # b) = a # splitOn c b"
  by (induction a) auto

lemma length_splitOn: "length (splitOn c s) = Suc (length (filter (\<lambda>x. x = c) s))"
proof (induction s)
  case Nil
  show ?case by simp
next
  case (Cons x xs)
  then show ?case using splitOn_not_Nil [of c xs]
    by (cases "splitOn c xs") auto
qed

text \<open>
  C5. \<open>parseRepository\<close> is a function of its argument, defined on every string. It
  splits at \<open>/\<close>, and the number of segments is the number of \<open>/\<close> plus one. A string
  without \<open>/\<close> yields the namespace \<open>library\<close> and the string; \<open>a/b\<close> with no \<open>/\<close> inside
  \<open>a\<close> and \<open>b\<close> yields \<open>a\<close> and \<open>b\<close>; a string with two or more \<open>/\<close> is rejected with the
  error \<open>Invalid repository format\<close>. The rejection is raised before any request: the
  operation that parses it (here the vulnerability lookup) fails in the state it started
  in, with the log of sent requests unchanged, and the retry wrapper hands the normalised
  error to the caller at once.
\<close>

theorem parseRepository_rule:
  "(CHR ''/'' \<notin> set s \<longrightarrow> parseRepository s = Inr (''library'', s))
   \<and> (CHR ''/'' \<notin> set a \<and> CHR ''/'' \<notin> set b \<longrightarrow> parseRepository (a @ ''/'' @ b) = Inr (a, b))
   \<and> (2 \<le> length (filter (\<lambda>x. x = CHR ''/'') s) \<longrightarrow>
        parseRepository s = Inl (ThrownError (''Invalid repository format: '' @ s))
        \<and> getVulnerabilitiesOnce E s tg w = (Inl (ThrownError (''Invalid repository format: '' @ s)), w)
        \<and> getVulnerabilities E s tg w
            = (Inl (ThrownDH (newDockerHubError (''Invalid repository format: '' @ s) None None)), w))
   \<and> length (splitOn CHR ''/'' s) = Suc (length (filter (\<lambda>x. x = CHR ''/'') s))"
proof (intro conjI impI)
  assume "CHR ''/'' \<notin> set s"
  then show "parseRepository s = Inr (''library'', s)"
    by (simp add: parseRepository_def splitOn_no_sep)
next
  assume "CHR ''/'' \<notin> set a \<and> CHR ''/'' \<notin> set b"
  then show "parseRepository (a @ ''/'' @ b) = Inr (a, b)"
    by (simp add: parseRepository_def splitOn_no_sep splitOn_sep)
next
  assume two: "2 \<le> length (filter (\<lambda>x. x = CHR ''/'') s)"
  then show p: "parseRepository s = Inl (ThrownError (''Invalid repository format: '' @ s))"
    by (auto simp add: parseRepository_def Let_def length_splitOn)
  then show o: "getVulnerabilitiesOnce E s tg w = (Inl (ThrownError (''Invalid repository format: '' @ s)), w)"
    by (simp add: getVulnerabilitiesOnce_def)
  show "getVulnerabilities E s tg w
            = (Inl (ThrownDH (newDockerHubError (''Invalid repository format: '' @ s) None None)), w)"
    using attemptLoop_surfaces [of 1 3 "getVulnerabilitiesOnce E s tg" w _ w
            "newDockerHubError (''Invalid repository format: '' @ s) None None" None]
    by (simp add: getVulnerabilities_def withErrorHandling_def o
          handleError_def isRetryable_def newDockerHubError_def)
next
  show "length (splitOn CHR ''/'' s) = Suc (length (filter (\<lambda>x. x = CHR ''/'') s))"
    by (rule length_splitOn)
qed

theorem parseRepository_rule_witness:
  "parseRepository ''nginx'' = Inr (''library'', ''nginx'')
   \<and> parseRepository ''user/repo'' = Inr (''user'', ''repo'')
   \<and> parseRepository ''a/b/c'' = Inl (ThrownError ''Invalid repository format: a/b/c'')
   \<and> getVulnerabilities offlineEnv ''a/b/c'' ''latest'' fullWorld
       = (Inl (ThrownDH (newDockerHubError ''Invalid repository format: a/b/c'' None None)), fullWorld)"
  using parseRepository_rule [of "''nginx''" "''user''" "''repo''"]
        parseRepository_rule [of "''a/b/c''" "[]" "[]" offlineEnv "''latest''" fullWorld]
  by simp

section \<open>Cache keys\<close>

lemma of_char_hexDigit:
  "n < 16 \<Longrightarrow> (of_char (hexDigit n) :: nat) = (if n < 10 then 48 + n else 55 + n)"
  by (simp add: hexDigit_def of_char_of)

lemma hexDigit_inj:
  assumes "m < 16" "n < 16" "hexDigit m = hexDigit n"
  shows "m = n"
proof -
  from assms(3) have "(of_char (hexDigit m) :: nat) = of_char (hexDigit n)" by simp
  then have "(if m < 10 then 48 + m else 55 + m) = (if n < 10 then 48 + n else 55 + n)"
    using assms(1,2) by (simp only: of_char_hexDigit)
  then show ?thesis by (simp split: if_splits)
qed

lemma hexDigit_not_amp: "n < 16 \<Longrightarrow> hexDigit n \<noteq> CHR ''&''"
proof
  assume n: "n < 16" and "hexDigit n = CHR ''&''"
  then have "(of_char (hexDigit n) :: nat) = of_char CHR ''&''" by simp
  then have "(if n < 10 then 48 + n else 55 + n) = (38 :: nat)"
    using n by (simp only: of_char_hexDigit) simp
  then show False by (simp split: if_splits)
qed

lemma not_unreserved: "\<not> unreserved CHR ''%''" "\<not> unreserved CHR ''&''"
  by (simp_all add: unreserved_def isDigit_def less_eq_char_def)

lemma encodeByte_cases:
  "encodeByte c = [c] \<and> unreserved c
   \<or> encodeByte c = [CHR ''%'', hexDigit (of_char c div 16), hexDigit (of_char c mod 16)] \<and> \<not> unreserved c"
  by (simp add: encodeByte_def)

lemma of_char_div_16: "(of_char c :: nat) div 16 < 16"
proof -
  have "(of_char c :: nat) < 256" by (simp add: of_char_def)
  then show ?thesis by presburger
qed

lemma char_of_hex:
  assumes "hexDigit (of_char c div 16) = hexDigit (of_char d div 16)"
    and "hexDigit (of_char c mod 16) = hexDigit (of_char d mod 16)"
  shows "c = d"
proof -
  have "(of_char c :: nat) div 16 = of_char d div 16"
    using hexDigit_inj [OF of_char_div_16 of_char_div_16 assms(1)] .
  moreover have "(of_char c :: nat) mod 16 = of_char d mod 16"
    using hexDigit_inj [OF _ _ assms(2)] by simp
  ultimately have "(of_char c :: nat) = of_char d"
    by (metis div_mult_mod_eq)
  then show ?thesis by simp
qed

lemma encodeURIComponent_inj: "encodeURIComponent s = encodeURIComponent t \<Longrightarrow> s = t"
proof (induction s arbitrary: t)
  case Nil
  then show ?case
    by (cases t) (auto simp: encodeURIComponent_def encodeByte_def split: if_splits)
next
  case (Cons c cs)
  show ?case
  proof (cases t)
    case Nil
    with Cons.prems show ?thesis
      by (auto simp: encodeURIComponent_def encodeByte_def split: if_splits)
  next
    case (Cons d ds)
    from Cons.prems Cons
    have eq: "encodeByte c @ encodeURIComponent cs = encodeByte d @ encodeURIComponent ds"
      by (simp add: encodeURIComponent_def)
    have "c = d \<and> encodeURIComponent cs = encodeURIComponent ds"
      using eq encodeByte_cases [of c] encodeByte_cases [of d] not_unreserved(1) char_of_hex [of c d]
      by auto
    with Cons.IH Cons show ?thesis by auto
  qed
qed

lemma amp_notin_encodeByte: "CHR ''&'' \<notin> set (encodeByte c)"
  using not_unreserved(2) hexDigit_not_amp [OF of_char_div_16, of c] hexDigit_not_amp [of "of_char c mod 16"]
  by (auto simp: encodeByte_def)

lemma amp_notin_encodeURIComponent: "CHR ''&'' \<notin> set (encodeURIComponent s)"
  by (simp add: encodeURIComponent_def amp_notin_encodeByte)

lemma append_sep_eq:
  assumes "c \<notin> set xs" "c \<notin> set xs'" "xs @ c # ys = xs' @ c # ys'"
  shows "xs = xs' \<and> ys = ys'"
  using assms
proof (induction xs arbitrary: xs')
  case Nil
  then show ?case by (cases xs') auto
next
  case (Cons x xs)
  then show ?case by (cases xs') auto
qed

lemma join_params_inj:
  assumes "\<forall>k\<in>set ks. CHR ''&'' \<notin> set (f k) \<and> CHR ''&'' \<notin> set (g k)"
    and "join ''&'' (map (\<lambda>k. k @ ''='' @ f k) ks) = join ''&'' (map (\<lambda>k. k @ ''='' @ g k) ks)"
  shows "\<forall>k\<in>set ks. f k = g k"
  using assms
proof (induction ks rule: induct_list012)
  case 1
  then show ?case by simp
next
  case (2 k)
  then show ?case by simp
next
  case (3 k k' ks)
  from "3.prems"(2)
  have "f k @ CHR ''&'' # join ''&'' (map (\<lambda>k. k @ ''='' @ f k) (k' # ks))
        = g k @ CHR ''&'' # join ''&'' (map (\<lambda>k. k @ ''='' @ g k) (k' # ks))"
    by simp
  with "3.prems"(1) have hd: "f k = g k" and tl: "join ''&'' (map (\<lambda>k. k @ ''='' @ f k) (k' # ks))
        = join ''&'' (map (\<lambda>k. k @ ''='' @ g k) (k' # ks))"
    using append_sep_eq [of "CHR ''&''" "f k" "g k"] by simp_all
  have "\<forall>x\<in>set (k' # ks). CHR ''&'' \<notin> set (f x) \<and> CHR ''&'' \<notin> set (g x)"
    using "3.prems"(1) by simp
  then have "\<forall>x\<in>set (k' # ks). f x = g x"
    using tl by (rule "3.IH"(2))
  with hd show ?case by simp
qed

lemma join_Nil_iff: "\<forall>x\<in>set xs. x \<noteq> [] \<Longrightarrow> join sep xs = [] \<longleftrightarrow> xs = []"
  by (induction xs rule: induct_list012) auto

lemma sorted_keys_eq:
  assumes "distinct (map fst A)" "distinct (map fst B)" "fst ` set A = fst ` set B"
  shows "sort (map fst A) = sort (map fst B)"
proof (rule sorted_distinct_set_unique)
  show "sorted (sort (map fst A))" "sorted (sort (map fst B))" by simp_all
  show "distinct (sort (map fst A))" "distinct (sort (map fst B))" using assms by simp_all
  show "set (sort (map fst A)) = set (sort (map fst B))" using assms(3) by simp
qed

lemma generateKey_alt:
  "generateKey e A = e @ (if A = [] then [] else ''?'' @ join ''&''
      (map (\<lambda>k. k @ ''='' @ encodeURIComponent (paramValue A k)) (sort (map fst A))))"
proof -
  have "paramString A = (\<lambda>k. k @ ''='' @ encodeURIComponent (paramValue A k))"
    by (simp add: paramString_def paramValue_def fun_eq_iff)
  moreover have "sort (map fst A) = [] \<longleftrightarrow> A = []"
    by (metis length_sort length_map length_0_conv)
  moreover have "join ''&'' (map (paramString A) (sort (map fst A))) = [] \<longleftrightarrow> sort (map fst A) = []"
    by (subst join_Nil_iff) (auto simp: paramString_def)
  ultimately show ?thesis
    by (simp add: generateKey_def Let_def)
qed

lemma generateKey_order:
  assumes "distinct (map fst A)" "distinct (map fst B)" "set A = set B"
  shows "generateKey e A = generateKey e B"
proof -
  have "map_of A = map_of B"
    using assms by (intro map_of_inject_set [THEN iffD2]) auto
  then have "paramString A = paramString B" by (simp add: paramString_def paramValue_def fun_eq_iff)
  moreover have "sort (map fst A) = sort (map fst B)"
    using assms by (intro sorted_keys_eq) auto
  ultimately show ?thesis by (simp add: generateKey_def)
qed

lemma generateKey_values:
  assumes dA: "distinct (map fst A)" and dB: "distinct (map fst B)"
    and keys: "fst ` set A = fst ` set B"
    and k: "k \<in> fst ` set A" and diff: "paramValue A k \<noteq> paramValue B k"
  shows "generateKey e A \<noteq> generateKey e B"
proof
  assume eq: "generateKey e A = generateKey e B"
  have ks: "sort (map fst A) = sort (map fst B)" using dA dB keys by (rule sorted_keys_eq)
  from k have "A \<noteq> []" by auto
  moreover from k keys have "B \<noteq> []" by auto
  ultimately have "join ''&'' (map (\<lambda>k. k @ ''='' @ encodeURIComponent (paramValue A k)) (sort (map fst A)))
      = join ''&'' (map (\<lambda>k. k @ ''='' @ encodeURIComponent (paramValue B k)) (sort (map fst A)))"
    using eq ks by (simp add: generateKey_alt)
  then have "\<forall>k\<in>set (sort (map fst A)). encodeURIComponent (paramValue A k) = encodeURIComponent (paramValue B k)"
    by (intro join_params_inj) (simp_all add: amp_notin_encodeURIComponent)
  with k have "encodeURIComponent (paramValue A k) = encodeURIComponent (paramValue B k)" by auto
  with diff show False by (auto dest: encodeURIComponent_inj)
qed

text \<open>
  C3, as amended. For parameter objects \<open>A\<close> and \<open>B\<close> (entry lists with distinct names):
  the key does not depend on the insertion order, so objects with the same entries get the
  same key; the key of the empty object is the bare endpoint, and any other key is the
  endpoint, \<open>?\<close>, and the pairs \<open>name=encodeURIComponent(String(value))\<close> joined by \<open>&\<close>
  in the lexicographic order of the names; and two objects with the same names get
  different keys whenever, at some name, the strings \<open>String(value)\<close> differ.
\<close>

theorem generateKey_deterministic:
  assumes "distinct (map fst A)" and "distinct (map fst B)"
  shows "(set A = set B \<longrightarrow> generateKey e A = generateKey e B)
       \<and> generateKey e [] = e
       \<and> (A \<noteq> [] \<longrightarrow> generateKey e A = e @ ''?'' @ join ''&''
             (map (\<lambda>k. k @ ''='' @ encodeURIComponent (paramValue A k)) (sort (map fst A))))
       \<and> sorted (sort (map fst A)) \<and> set (sort (map fst A)) = fst ` set A
       \<and> (fst ` set A = fst ` set B \<and> (\<exists>k\<in>fst ` set A. paramValue A k \<noteq> paramValue B k) \<longrightarrow>
             generateKey e A \<noteq> generateKey e B)"
proof (intro conjI impI)
  assume "set A = set B"
  with assms show "generateKey e A = generateKey e B" by (rule generateKey_order)
next
  show "generateKey e [] = e" by (simp add: generateKey_alt)
next
  assume "A \<noteq> []"
  then show "generateKey e A = e @ ''?'' @ join ''&''
             (map (\<lambda>k. k @ ''='' @ encodeURIComponent (paramValue A k)) (sort (map fst A)))"
    by (simp add: generateKey_alt)
next
  show "sorted (sort (map fst A))" by simp
  show "set (sort (map fst A)) = fst ` set A" by simp
next
  assume "fst ` set A = fst ` set B \<and> (\<exists>k\<in>fst ` set A. paramValue A k \<noteq> paramValue B k)"
  then obtain k where "fst ` set A = fst ` set B" "k \<in> fst ` set A" "paramValue A k \<noteq> paramValue B k"
    by blast
  with assms show "generateKey e A \<noteq> generateKey e B" by (rule generateKey_values)
qed

theorem generateKey_deterministic_witness:
  "generateKey ''search'' [(''q'', JStr ''nginx''), (''page'', JNum 1)]
     = generateKey ''search'' [(''page'', JNum 1), (''q'', JStr ''nginx'')]
   \<and> generateKey ''search'' [(''q'', JStr ''nginx''), (''page'', JNum 1)]
     \<noteq> generateKey ''search'' [(''q'', JStr ''redis''), (''page'', JNum 1)]"
proof -
  let ?A = "[(''q'', JStr ''nginx''), (''page'', JNum 1)]"
  let ?B = "[(''page'', JNum 1), (''q'', JStr ''nginx'')]"
  let ?C = "[(''q'', JStr ''redis''), (''page'', JNum 1)]"
  have dA: "distinct (map fst ?A)" and dB: "distinct (map fst ?B)" and dC: "distinct (map fst ?C)"
    by simp_all
  have AB: "set ?A = set ?B" by auto
  have AC: "fst ` set ?A = fst ` set ?C \<and> (\<exists>k\<in>fst ` set ?A. paramValue ?A k \<noteq> paramValue ?C k)"
    by (simp add: paramValue_def)
  from generateKey_deterministic [OF dA dB, of "''search''"] AB
  have 1: "generateKey ''search'' ?A = generateKey ''search'' ?B" by blast
  from generateKey_deterministic [OF dA dC, of "''search''"] AC
  have 2: "generateKey ''search'' ?A \<noteq> generateKey ''search'' ?C" by blast
  from 1 2 show ?thesis by simp
qed

text \<open>
  The stronger statement, that objects differing in some value always get different keys,
  does not hold: the values are converted by \<open>String\<close> and the names are not encoded, so \<open>true\<close>
  and \<open>'true'\<close> give the same key, and so do the one parameter \<open>a=1&b\<close> with the value
  \<open>2\<close> and the two parameters \<open>a\<close>, \<open>b\<close> with the values \<open>1\<close>, \<open>2\<close>.
\<close>

theorem generateKey_collision:
  "map_of [(''is_official'', JBool True)] ''is_official''
     \<noteq> map_of [(''is_official'', JStr ''true'')] ''is_official''
   \<and> generateKey ''search'' [(''is_official'', JBool True)]
     = generateKey ''search'' [(''is_official'', JStr ''true'')]
   \<and> map_of [(''a=1&b'', JStr ''2'')] ''a'' \<noteq> map_of [(''a'', JStr ''1''), (''b'', JStr ''2'')] ''a''
   \<and> generateKey ''search'' [(''a=1&b'', JStr ''2'')]
     = generateKey ''search'' [(''a'', JStr ''1''), (''b'', JStr ''2'')]"
  by code_simp


section \<open>The retry policy\<close>

lemma attemptLoop_retries:
  "attempt < maxRetries \<Longrightarrow> fn w = (Inl x, w1) \<Longrightarrow> handleError (clock w1) x = Inr e \<Longrightarrow>
   isRetryable e \<Longrightarrow>
   w2 = (case getRetryDelay (clock w1) e attempt of Num d \<Rightarrow> if d > 0 then sleep d w1 else w1 | NaN \<Rightarrow> w1) \<Longrightarrow>
   attemptLoop fn maxRetries attempt lastError w
     = (fst (attemptLoop fn maxRetries (attempt + 1) (Some e) w2),
        Retried e (clock w1) (getRetryDelay (clock w1) e attempt) (clock w2)
          # snd (attemptLoop fn maxRetries (attempt + 1) (Some e) w2))"
  by (subst attemptLoop.simps) (simp add: Let_def)

lemma attemptLoop_length:
  "attempt \<le> maxRetries \<Longrightarrow>
   1 \<le> length (snd (attemptLoop fn maxRetries attempt lastError w))
   \<and> length (snd (attemptLoop fn maxRetries attempt lastError w)) \<le> maxRetries + 1 - attempt"
proof (induction fn maxRetries attempt lastError w rule: attemptLoop.induct)
  case (1 fn maxRetries attempt lastError w)
  obtain r w1 where fw: "fn w = (r, w1)" by (cases "fn w")
  show ?case
  proof (cases r)
    case (Inr v)
    with fw 1 show ?thesis by (simp add: attemptLoop_returns)
  next
    case (Inl x)
    show ?thesis
    proof (cases "handleError (clock w1) x")
      case (Inl t)
      with fw \<open>r = Inl x\<close> 1 show ?thesis by (simp add: attemptLoop_escapes)
    next
      case (Inr e)
      show ?thesis
      proof (cases "attempt = maxRetries \<or> \<not> isRetryable e")
        case True
        with fw \<open>r = Inl x\<close> Inr 1 show ?thesis by (simp add: attemptLoop_surfaces)
      next
        case False
        define w2 where "w2 = (case getRetryDelay (clock w1) e attempt of
              Num d \<Rightarrow> if d > 0 then sleep d w1 else w1 | NaN \<Rightarrow> w1)"
        from False "1.prems" have lt: "attempt < maxRetries" and re: "isRetryable e" by auto
        have step: "attemptLoop fn maxRetries attempt lastError w
           = (fst (attemptLoop fn maxRetries (attempt + 1) (Some e) w2),
              Retried e (clock w1) (getRetryDelay (clock w1) e attempt) (clock w2)
                # snd (attemptLoop fn maxRetries (attempt + 1) (Some e) w2))"
          using fw \<open>r = Inl x\<close> Inr lt re w2_def by (intro attemptLoop_retries) auto
        have "1 \<le> length (snd (attemptLoop fn maxRetries (attempt + 1) (Some e) w2))
           \<and> length (snd (attemptLoop fn maxRetries (attempt + 1) (Some e) w2)) \<le> maxRetries + 1 - (attempt + 1)"
          using "1.IH" [OF "1.prems" fw [symmetric] \<open>r = Inl x\<close> Inr False refl w2_def] lt
          by simp
        with step lt show ?thesis by (simp add: Suc_diff_le less_imp_le)
      qed
    qed
  qed
qed

lemma attemptLoop_steps:
  "attempt \<le> maxRetries \<Longrightarrow> i < length (snd (attemptLoop fn maxRetries attempt lastError w)) \<Longrightarrow>
   (case snd (attemptLoop fn maxRetries attempt lastError w) ! i of
      Returned \<Rightarrow>
        Suc i = length (snd (attemptLoop fn maxRetries attempt lastError w))
        \<and> (\<exists>v. fst (fst (attemptLoop fn maxRetries attempt lastError w)) = Inr v)
    | Retried e t d t' \<Rightarrow>
        Suc i < length (snd (attemptLoop fn maxRetries attempt lastError w))
        \<and> attempt + i < maxRetries \<and> isRetryable e \<and> d = getRetryDelay t e (attempt + i)
        \<and> t' = (case d of Num x \<Rightarrow> if 0 < x then t + x else t | NaN \<Rightarrow> t)
    | Surfaced e t \<Rightarrow>
        Suc i = length (snd (attemptLoop fn maxRetries attempt lastError w))
        \<and> (attempt + i = maxRetries \<or> \<not> isRetryable e)
        \<and> fst (fst (attemptLoop fn maxRetries attempt lastError w)) = Inl (ThrownDH e)
    | Escaped x \<Rightarrow>
        Suc i = length (snd (attemptLoop fn maxRetries attempt lastError w))
        \<and> fst (fst (attemptLoop fn maxRetries attempt lastError w)) = Inl x)"
proof (induction fn maxRetries attempt lastError w arbitrary: i rule: attemptLoop.induct)
  case (1 fn maxRetries attempt lastError w)
  obtain r w1 where fw: "fn w = (r, w1)" by (cases "fn w")
  show ?case
  proof (cases r)
    case (Inr v)
    with fw 1 show ?thesis by (simp add: attemptLoop_returns)
  next
    case (Inl x)
    show ?thesis
    proof (cases "handleError (clock w1) x")
      case (Inl t)
      with fw \<open>r = Inl x\<close> 1 show ?thesis by (simp add: attemptLoop_escapes)
    next
      case (Inr e)
      show ?thesis
      proof (cases "attempt = maxRetries \<or> \<not> isRetryable e")
        case True
        with fw \<open>r = Inl x\<close> Inr "1.prems" show ?thesis
          by (simp add: attemptLoop_surfaces)
      next
        case False
        define w2 where "w2 = (case getRetryDelay (clock w1) e attempt of
              Num d \<Rightarrow> if d > 0 then sleep d w1 else w1 | NaN \<Rightarrow> w1)"
        define R' where "R' = attemptLoop fn maxRetries (attempt + 1) (Some e) w2"
        from False "1.prems" have lt: "attempt < maxRetries" and re: "isRetryable e" by auto
        have step: "attemptLoop fn maxRetries attempt lastError w
           = (fst R', Retried e (clock w1) (getRetryDelay (clock w1) e attempt) (clock w2) # snd R')"
          unfolding R'_def using fw \<open>r = Inl x\<close> Inr lt re w2_def by (intro attemptLoop_retries) auto
        have len: "snd R' \<noteq> []"
          unfolding R'_def using attemptLoop_length [of "attempt + 1" maxRetries fn "Some e" w2] lt by auto
        have resume: "clock w2 = (case getRetryDelay (clock w1) e attempt of
              Num x \<Rightarrow> if 0 < x then clock w1 + x else clock w1 | NaN \<Rightarrow> clock w1)"
          by (simp add: w2_def sleep_def split: jsnum.splits)
        show ?thesis
        proof (cases i)
          case 0
          with step len lt re resume show ?thesis by simp
        next
          case (Suc j)
          with "1.prems"(2) step have j: "j < length (snd R')" by simp
          have "attempt + 1 \<le> maxRetries" using lt by simp
          from "1.IH" [OF "1.prems"(1) fw [symmetric] \<open>r = Inl x\<close> Inr False refl w2_def this, of j] j
          have IH: "(case snd R' ! j of
              Returned \<Rightarrow> Suc j = length (snd R') \<and> (\<exists>v. fst (fst R') = Inr v)
            | Retried e t d t' \<Rightarrow>
                Suc j < length (snd R')
                \<and> attempt + 1 + j < maxRetries \<and> isRetryable e \<and> d = getRetryDelay t e (attempt + 1 + j)
                \<and> t' = (case d of Num x \<Rightarrow> if 0 < x then t + x else t | NaN \<Rightarrow> t)
            | Surfaced e t \<Rightarrow>
                Suc j = length (snd R') \<and> (attempt + 1 + j = maxRetries \<or> \<not> isRetryable e)
                \<and> fst (fst R') = Inl (ThrownDH e)
            | Escaped x \<Rightarrow> Suc j = length (snd R') \<and> fst (fst R') = Inl x)"
            unfolding R'_def by simp
          have nth: "snd (attemptLoop fn maxRetries attempt lastError w) ! i = snd R' ! j"
            and lenEq: "length (snd (attemptLoop fn maxRetries attempt lastError w)) = Suc (length (snd R'))"
            and fstEq: "fst (attemptLoop fn maxRetries attempt lastError w) = fst R'"
            and ai: "attempt + i = attempt + 1 + j"
            using Suc step by simp_all
          show ?thesis
            unfolding nth lenEq fstEq ai
            using IH by (cases "snd R' ! j") (auto simp: Suc)
        qed
      qed
    qed
  qed
qed

lemma attemptLoop_runs:
  "attempt \<le> maxRetries \<Longrightarrow> i < length (snd (attemptLoop fn maxRetries attempt lastError w)) \<Longrightarrow>
   (case snd (attemptLoop fn maxRetries attempt lastError w) ! i of
      Returned \<Rightarrow>
        (\<exists>v w1. fn (attemptStart fn attempt i w) = (Inr v, w1)
           \<and> fst (attemptLoop fn maxRetries attempt lastError w) = (Inr v, w1))
    | Retried e t d t' \<Rightarrow>
        (\<exists>x w1. fn (attemptStart fn attempt i w) = (Inl x, w1)
           \<and> handleError (clock w1) x = Inr e \<and> t = clock w1
           \<and> attemptStart fn attempt (Suc i) w
               = (case d of Num y \<Rightarrow> if 0 < y then sleep y w1 else w1 | NaN \<Rightarrow> w1))
    | Surfaced e t \<Rightarrow>
        (\<exists>x w1. fn (attemptStart fn attempt i w) = (Inl x, w1)
           \<and> handleError (clock w1) x = Inr e \<and> t = clock w1
           \<and> fst (attemptLoop fn maxRetries attempt lastError w) = (Inl (ThrownDH e), w1))
    | Escaped y \<Rightarrow>
        (\<exists>x w1. fn (attemptStart fn attempt i w) = (Inl x, w1)
           \<and> handleError (clock w1) x = Inl y
           \<and> fst (attemptLoop fn maxRetries attempt lastError w) = (Inl y, w1)))"
proof (induction fn maxRetries attempt lastError w arbitrary: i rule: attemptLoop.induct)
  case (1 fn maxRetries attempt lastError w)
  obtain r w1 where fw: "fn w = (r, w1)" by (cases "fn w")
  show ?case
  proof (cases r)
    case (Inr v)
    with fw 1 show ?thesis by (simp add: attemptLoop_returns)
  next
    case (Inl x)
    show ?thesis
    proof (cases "handleError (clock w1) x")
      case (Inl t)
      with fw \<open>r = Inl x\<close> 1 show ?thesis by (simp add: attemptLoop_escapes)
    next
      case (Inr e)
      show ?thesis
      proof (cases "attempt = maxRetries \<or> \<not> isRetryable e")
        case True
        with fw \<open>r = Inl x\<close> Inr "1.prems" show ?thesis
          by (simp add: attemptLoop_surfaces)
      next
        case False
        define w2 where "w2 = (case getRetryDelay (clock w1) e attempt of
              Num d \<Rightarrow> if d > 0 then sleep d w1 else w1 | NaN \<Rightarrow> w1)"
        define R' where "R' = attemptLoop fn maxRetries (attempt + 1) (Some e) w2"
        from False "1.prems" have lt: "attempt < maxRetries" and re: "isRetryable e" by auto
        have step: "attemptLoop fn maxRetries attempt lastError w
           = (fst R', Retried e (clock w1) (getRetryDelay (clock w1) e attempt) (clock w2) # snd R')"
          unfolding R'_def using fw \<open>r = Inl x\<close> Inr lt re w2_def by (intro attemptLoop_retries) auto
        have ns: "nextStart fn attempt w = w2"
          using fw \<open>r = Inl x\<close> Inr by (simp add: nextStart_def w2_def)
        show ?thesis
        proof (cases i)
          case 0
          with step fw \<open>r = Inl x\<close> Inr ns show ?thesis by (simp add: w2_def)
        next
          case (Suc j)
          with "1.prems"(2) step have j: "j < length (snd R')" by simp
          have le: "attempt + 1 \<le> maxRetries" using lt by simp
          have st: "attemptStart fn attempt (Suc k) w = attemptStart fn (attempt + 1) k w2" for k
            by (simp add: ns)
          from "1.IH" [OF "1.prems"(1) fw [symmetric] \<open>r = Inl x\<close> Inr False refl w2_def le, of j] j
          have IH: "(case snd R' ! j of
              Returned \<Rightarrow>
                (\<exists>v w1. fn (attemptStart fn (attempt + 1) j w2) = (Inr v, w1) \<and> fst R' = (Inr v, w1))
            | Retried e t d t' \<Rightarrow>
                (\<exists>x w1. fn (attemptStart fn (attempt + 1) j w2) = (Inl x, w1)
                   \<and> handleError (clock w1) x = Inr e \<and> t = clock w1
                   \<and> attemptStart fn (attempt + 1) (Suc j) w2
                       = (case d of Num y \<Rightarrow> if 0 < y then sleep y w1 else w1 | NaN \<Rightarrow> w1))
            | Surfaced e t \<Rightarrow>
                (\<exists>x w1. fn (attemptStart fn (attempt + 1) j w2) = (Inl x, w1)
                   \<and> handleError (clock w1) x = Inr e \<and> t = clock w1
                   \<and> fst R' = (Inl (ThrownDH e), w1))
            | Escaped y \<Rightarrow>
                (\<exists>x w1. fn (attemptStart fn (attempt + 1) j w2) = (Inl x, w1)
                   \<and> handleError (clock w1) x = Inl y \<and> fst R' = (Inl y, w1)))"
            unfolding R'_def by simp
          have nth: "snd (attemptLoop fn maxRetries attempt lastError w) ! Suc j = snd R' ! j"
            and fstEq: "fst (attemptLoop fn maxRetries attempt lastError w) = fst R'"
            using step by simp_all
          show ?thesis
            unfolding Suc nth fstEq
            using IH by (cases "snd R' ! j") (simp_all add: ns)
        qed
      qed
    qed
  qed
qed

text \<open>
  C4, as amended. \<open>withErrorHandling\<close> with its budget of 3, on any function \<open>fn\<close> and from
  any state \<open>w\<close>; \<open>R\<close> is its run with the record of the attempts. It makes at least one
  and at most three attempts. Attempt \<open>i + 1\<close> calls \<open>fn\<close> in the state
  \<open>attemptStart fn 1 i w\<close>: that is \<open>w\<close> for the first attempt and, after an attempt that
  is retried, the state which the call of \<open>fn\<close> in that attempt left, with the clock moved
  on by the delay. An attempt that is followed by another one called \<open>fn\<close>, which failed
  with an error that normalises to a retryable error \<open>e\<close>; it was not the third, and it was
  followed by the delay \<open>getRetryDelay\<close>; for a \<open>RateLimitError\<close> whose reset time is a
  number, the next attempt starts at the later of the time of the catch and the reset time.
  Every other outcome ends the run. Either the call of \<open>fn\<close> returns a value, which is the
  result of the run; or the call fails and the error it normalises to is thrown to the
  caller, which happens at the third attempt and at any error that is not retryable; or the
  normalisation itself throws. An error is retryable exactly when it is a \<open>RateLimitError\<close>,
  or a \<open>DockerHubError\<close> with the status 429 or with any status from 500 on; an
  \<open>AuthenticationError\<close> never is. The delay for a \<open>RateLimitError\<close> whose reset time is a
  number is the time left until then, at least 0; for an error that is not a
  \<open>RateLimitError\<close> it is \<open>1000 * 2^(attempt - 1)\<close> ms, at most 30000, at the attempts from
  1 on.
\<close>

theorem withErrorHandling_retry_policy:
  fixes fn :: "'a async" and w :: world
  defines "R \<equiv> attemptLoop fn 3 1 None w"
  shows "withErrorHandling fn 3 w = fst R
       \<and> 1 \<le> length (snd R) \<and> length (snd R) \<le> 3
       \<and> attemptStart fn 1 0 w = w
       \<and> (\<forall>i<length (snd R). case snd R ! i of
             Returned \<Rightarrow>
               Suc i = length (snd R)
               \<and> (\<exists>v w1. fn (attemptStart fn 1 i w) = (Inr v, w1) \<and> fst R = (Inr v, w1))
           | Retried e t d t' \<Rightarrow>
               Suc i < length (snd R) \<and> Suc i < 3 \<and> isRetryable e \<and> d = getRetryDelay t e (Suc i)
               \<and> t' = (case d of Num x \<Rightarrow> if 0 < x then t + x else t | NaN \<Rightarrow> t)
               \<and> (\<forall>rt. errorClass e = RateLimitErrorC (Num rt) \<longrightarrow> t' = max t rt)
               \<and> (\<exists>x w1. fn (attemptStart fn 1 i w) = (Inl x, w1)
                     \<and> handleError (clock w1) x = Inr e \<and> t = clock w1
                     \<and> attemptStart fn 1 (Suc i) w = w1\<lparr>clock := t'\<rparr>)
           | Surfaced e t \<Rightarrow>
               Suc i = length (snd R) \<and> (Suc i = 3 \<or> \<not> isRetryable e)
               \<and> (\<exists>x w1. fn (attemptStart fn 1 i w) = (Inl x, w1)
                     \<and> handleError (clock w1) x = Inr e \<and> t = clock w1
                     \<and> fst R = (Inl (ThrownDH e), w1))
           | Escaped y \<Rightarrow>
               Suc i = length (snd R)
               \<and> (\<exists>x w1. fn (attemptStart fn 1 i w) = (Inl x, w1)
                     \<and> handleError (clock w1) x = Inl y \<and> fst R = (Inl y, w1)))
       \<and> (\<forall>e. isRetryable e \<longleftrightarrow>
              (\<exists>rt. errorClass e = RateLimitErrorC rt)
              \<or> (errorClass e = DockerHubErrorC \<and> (\<exists>c. statusCode e = Some c \<and> (500 \<le> c \<or> c = 429))))
       \<and> (\<forall>e. errorClass e = AuthenticationErrorC \<longrightarrow> \<not> isRetryable e)
       \<and> (\<forall>t e n rt. errorClass e = RateLimitErrorC (Num rt) \<longrightarrow> getRetryDelay t e n = Num (max 0 (rt - t)))
       \<and> (\<forall>t e n. (\<forall>rt. errorClass e \<noteq> RateLimitErrorC rt) \<and> 1 \<le> n \<longrightarrow>
              getRetryDelay t e n = Num (min 30000 (1000 * 2 ^ (n - 1))))"
proof (intro conjI allI impI)
  show "withErrorHandling fn 3 w = fst R" by (simp add: withErrorHandling_def R_def)
  show "1 \<le> length (snd R)" "length (snd R) \<le> 3"
    using attemptLoop_length [of 1 3 fn None w] by (simp_all add: R_def)
  show "attemptStart fn 1 0 w = w" by simp
next
  fix i assume i: "i < length (snd R)"
  have delay: "errorClass e = RateLimitErrorC (Num rt) \<Longrightarrow>
        (case getRetryDelay t e n of Num x \<Rightarrow> if 0 < x then t + x else t | NaN \<Rightarrow> t) = max t rt"
    for e :: DockerHubError and t n rt by (simp add: getRetryDelay_def)
  have resume: "(case d of Num y \<Rightarrow> if 0 < y then sleep y w1 else w1 | NaN \<Rightarrow> w1)
        = w1\<lparr>clock := (case d of Num x \<Rightarrow> if 0 < x then clock w1 + x else clock w1 | NaN \<Rightarrow> clock w1)\<rparr>"
    for d w1 by (cases d) (simp_all add: sleep_def)
  note s = attemptLoop_steps [of 1 3 i fn None w, folded R_def, OF _ i]
  note r = attemptLoop_runs [of 1 3 i fn None w, folded R_def, OF _ i]
  show "case snd R ! i of
             Returned \<Rightarrow>
               Suc i = length (snd R)
               \<and> (\<exists>v w1. fn (attemptStart fn 1 i w) = (Inr v, w1) \<and> fst R = (Inr v, w1))
           | Retried e t d t' \<Rightarrow>
               Suc i < length (snd R) \<and> Suc i < 3 \<and> isRetryable e \<and> d = getRetryDelay t e (Suc i)
               \<and> t' = (case d of Num x \<Rightarrow> if 0 < x then t + x else t | NaN \<Rightarrow> t)
               \<and> (\<forall>rt. errorClass e = RateLimitErrorC (Num rt) \<longrightarrow> t' = max t rt)
               \<and> (\<exists>x w1. fn (attemptStart fn 1 i w) = (Inl x, w1)
                     \<and> handleError (clock w1) x = Inr e \<and> t = clock w1
                     \<and> attemptStart fn 1 (Suc i) w = w1\<lparr>clock := t'\<rparr>)
           | Surfaced e t \<Rightarrow>
               Suc i = length (snd R) \<and> (Suc i = 3 \<or> \<not> isRetryable e)
               \<and> (\<exists>x w1. fn (attemptStart fn 1 i w) = (Inl x, w1)
                     \<and> handleError (clock w1) x = Inr e \<and> t = clock w1
                     \<and> fst R = (Inl (ThrownDH e), w1))
           | Escaped y \<Rightarrow>
               Suc i = length (snd R)
               \<and> (\<exists>x w1. fn (attemptStart fn 1 i w) = (Inl x, w1)
                     \<and> handleError (clock w1) x = Inl y \<and> fst R = (Inl y, w1))"
  proof (cases "snd R ! i")
    case Returned
    with s r show ?thesis by auto
  next
    case (Retried e t d t')
    with s have a: "Suc i < length (snd R)" "Suc i < 3" "isRetryable e" "d = getRetryDelay t e (Suc i)"
        "t' = (case d of Num x \<Rightarrow> if 0 < x then t + x else t | NaN \<Rightarrow> t)"
      by simp_all
    from Retried r obtain x w1 where b: "fn (attemptStart fn 1 i w) = (Inl x, w1)"
        "handleError (clock w1) x = Inr e" "t = clock w1"
        "attemptStart fn 1 (Suc i) w = (case d of Num y \<Rightarrow> if 0 < y then sleep y w1 else w1 | NaN \<Rightarrow> w1)"
      by auto
    from b(3,4) a(5) have c: "attemptStart fn 1 (Suc i) w = w1\<lparr>clock := t'\<rparr>"
      by (simp only: resume)
    have "\<forall>rt. errorClass e = RateLimitErrorC (Num rt) \<longrightarrow> t' = max t rt"
      using a(4,5) delay by simp
    with a b(1,2,3) c Retried show ?thesis by auto
  next
    case (Surfaced e t)
    with s r show ?thesis by auto
  next
    case (Escaped y)
    with s r show ?thesis by auto
  qed
next
  fix e :: DockerHubError
  show "isRetryable e \<longleftrightarrow>
              (\<exists>rt. errorClass e = RateLimitErrorC rt)
              \<or> (errorClass e = DockerHubErrorC \<and> (\<exists>c. statusCode e = Some c \<and> (500 \<le> c \<or> c = 429)))"
    by (auto simp: isRetryable_def split: ErrorClass.splits option.splits)
next
  fix e :: DockerHubError assume "errorClass e = AuthenticationErrorC"
  then show "\<not> isRetryable e" by (simp add: isRetryable_def)
next
  fix t n rt and e :: DockerHubError assume "errorClass e = RateLimitErrorC (Num rt)"
  then show "getRetryDelay t e n = Num (max 0 (rt - t))" by (simp add: getRetryDelay_def)
next
  fix t and n :: nat and e :: DockerHubError
  assume "(\<forall>rt. errorClass e \<noteq> RateLimitErrorC rt) \<and> 1 \<le> n"
  then show "getRetryDelay t e n = Num (min 30000 (1000 * 2 ^ (n - 1)))"
    by (cases "errorClass e") (simp_all add: getRetryDelay_def)
qed

lemma alwaysUnavailable_trace:
  "attemptLoop alwaysUnavailable 3 1 None fullWorld
   = ((Inl (ThrownDH unavailableError), fullWorld\<lparr>clock := 3005\<rparr>),
      [Retried unavailableError 5 (Num 1000) 1005, Retried unavailableError 1005 (Num 2000) 3005,
       Surfaced unavailableError 3005])"
proof -
  have h: "handleError t (statusRejection unavailable) = Inr unavailableError" for t
    by (simp add: handleError_def handleAxiosError_def statusRejection_def unavailable_def
          extractMessage_def unavailableError_def)
  have r: "isRetryable unavailableError"
    by (simp add: isRetryable_def unavailableError_def newDockerHubError_def)
  have d: "getRetryDelay t unavailableError 1 = Num 1000" "getRetryDelay t unavailableError 2 = Num 2000" for t
    by (simp_all add: getRetryDelay_def unavailableError_def newDockerHubError_def)
  have 3: "attemptLoop alwaysUnavailable 3 3 (Some unavailableError) (fullWorld\<lparr>clock := 3005\<rparr>)
           = ((Inl (ThrownDH unavailableError), fullWorld\<lparr>clock := 3005\<rparr>), [Surfaced unavailableError 3005])"
    using attemptLoop_surfaces [of 3 3 alwaysUnavailable "fullWorld\<lparr>clock := 3005\<rparr>"
            "statusRejection unavailable" "fullWorld\<lparr>clock := 3005\<rparr>" unavailableError]
    by (simp add: alwaysUnavailable_def h)
  have 2: "attemptLoop alwaysUnavailable 3 2 (Some unavailableError) (fullWorld\<lparr>clock := 1005\<rparr>)
           = ((Inl (ThrownDH unavailableError), fullWorld\<lparr>clock := 3005\<rparr>),
              [Retried unavailableError 1005 (Num 2000) 3005, Surfaced unavailableError 3005])"
    using attemptLoop_retries [of 2 3 alwaysUnavailable "fullWorld\<lparr>clock := 1005\<rparr>"
            "statusRejection unavailable" "fullWorld\<lparr>clock := 1005\<rparr>" unavailableError
            "fullWorld\<lparr>clock := 3005\<rparr>" "Some unavailableError"]
    by (simp add: alwaysUnavailable_def h r d sleep_def 3 del: One_nat_def)
  have c5: "clock fullWorld = 5" by (simp add: fullWorld_def)
  show ?thesis
    using attemptLoop_retries [of 1 3 alwaysUnavailable fullWorld
            "statusRejection unavailable" fullWorld unavailableError
            "fullWorld\<lparr>clock := 1005\<rparr>" None]
    by (simp add: alwaysUnavailable_def h r d sleep_def 2 c5 del: One_nat_def)
qed

lemma constant_failure_trace:
  assumes fn: "\<And>w. fn w = (Inl x, w)" and h: "\<And>t. handleError t x = Inr e" and r: "isRetryable e"
  shows "attemptLoop fn 3 1 None w
   = ((Inl (ThrownDH e), nextStart fn 2 (nextStart fn 1 w)),
      [Retried e (clock w) (getRetryDelay (clock w) e 1) (clock (nextStart fn 1 w)),
       Retried e (clock (nextStart fn 1 w)) (getRetryDelay (clock (nextStart fn 1 w)) e 2)
         (clock (nextStart fn 2 (nextStart fn 1 w))),
       Surfaced e (clock (nextStart fn 2 (nextStart fn 1 w)))])"
proof -
  define w2 where "w2 = nextStart fn 1 w"
  define w3 where "w3 = nextStart fn 2 w2"
  have n: "nextStart fn a v = (case getRetryDelay (clock v) e a of
              Num d \<Rightarrow> if d > 0 then sleep d v else v | NaN \<Rightarrow> v)" for a v
    by (simp add: nextStart_def fn h)
  have 3: "attemptLoop fn 3 3 (Some e) w3 = ((Inl (ThrownDH e), w3), [Surfaced e (clock w3)])"
    by (rule attemptLoop_surfaces [OF _ fn h]) simp_all
  have "attemptLoop fn 3 2 (Some e) w2
           = (fst (attemptLoop fn 3 (2 + 1) (Some e) w3),
              Retried e (clock w2) (getRetryDelay (clock w2) e 2) (clock w3)
                # snd (attemptLoop fn 3 (2 + 1) (Some e) w3))"
    unfolding w3_def by (rule attemptLoop_retries [OF _ fn h r n]) simp
  then have 2: "attemptLoop fn 3 2 (Some e) w2
           = ((Inl (ThrownDH e), w3),
              [Retried e (clock w2) (getRetryDelay (clock w2) e 2) (clock w3), Surfaced e (clock w3)])"
    by (simp add: 3)
  have "attemptLoop fn 3 1 None w
           = (fst (attemptLoop fn 3 (1 + 1) (Some e) w2),
              Retried e (clock w) (getRetryDelay (clock w) e 1) (clock w2)
                # snd (attemptLoop fn 3 (1 + 1) (Some e) w2))"
    unfolding w2_def by (rule attemptLoop_retries [OF _ fn h r n]) simp
  then have "attemptLoop fn 3 1 None w
           = ((Inl (ThrownDH e), w3),
              [Retried e (clock w) (getRetryDelay (clock w) e 1) (clock w2),
               Retried e (clock w2) (getRetryDelay (clock w2) e 2) (clock w3), Surfaced e (clock w3)])"
    by (simp add: 2 del: One_nat_def)
  then show ?thesis by (simp only: w2_def w3_def)
qed

lemma handleError_sixHundred: "handleError t (statusRejection sixHundred) = Inr sixHundredError"
proof -
  have "intString 600 = ''600''" by code_simp
  then show ?thesis
    by (simp add: handleError_def handleAxiosError_def statusRejection_def sixHundred_def
          extractMessage_def messageOr_def sixHundredError_def)
qed

lemma handleError_datedLimit: "handleError t (statusRejection datedLimit) = Inr datedLimitError"
proof -
  have "intString 429 = ''429''" by code_simp
  moreover have "parseInt ''Wed, 21 Oct 2015 07:28:00 GMT'' = NaN"
    by (simp add: parseInt_def isWhiteSpace_def isDigit_def less_eq_char_def)
  ultimately show ?thesis
    by (simp add: handleError_def handleAxiosError_def statusRejection_def datedLimit_def
          extractMessage_def messageOr_def datedLimitError_def)
qed

theorem withErrorHandling_retry_policy_witness:
  "withErrorHandling alwaysUnavailable 3 fullWorld = (Inl (ThrownDH unavailableError), fullWorld\<lparr>clock := 3005\<rparr>)
   \<and> snd (attemptLoop alwaysUnavailable 3 1 None fullWorld)
       = [Retried unavailableError 5 (Num 1000) 1005, Retried unavailableError 1005 (Num 2000) 3005,
          Surfaced unavailableError 3005]
   \<and> alwaysUnavailable fullWorld = (Inl (statusRejection unavailable), fullWorld)
   \<and> attemptStart alwaysUnavailable 1 (Suc 0) fullWorld = fullWorld\<lparr>clock := 1005\<rparr>
   \<and> isRetryable unavailableError
   \<and> \<not> isRetryable (newAuthenticationError ''Authentication failed'')
   \<and> getRetryDelay 5 (newRateLimitError ''Rate limit exceeded'' (Num 9000)) 1 = Num 8995
   \<and> getRetryDelay 5 unavailableError 6 = Num 30000"
proof -
  note policy = withErrorHandling_retry_policy [of alwaysUnavailable fullWorld, unfolded alwaysUnavailable_trace]
  note p1 = policy [THEN conjunct1]
  note p5 = policy [THEN conjunct2, THEN conjunct2, THEN conjunct2, THEN conjunct2, THEN conjunct1]
  note p6 = policy [THEN conjunct2, THEN conjunct2, THEN conjunct2, THEN conjunct2, THEN conjunct2,
                    THEN conjunct1]
  note p7 = policy [THEN conjunct2, THEN conjunct2, THEN conjunct2, THEN conjunct2, THEN conjunct2,
                    THEN conjunct2, THEN conjunct1]
  note p8 = policy [THEN conjunct2, THEN conjunct2, THEN conjunct2, THEN conjunct2, THEN conjunct2,
                    THEN conjunct2, THEN conjunct2, THEN conjunct1]
  note p9 = policy [THEN conjunct2, THEN conjunct2, THEN conjunct2, THEN conjunct2, THEN conjunct2,
                    THEN conjunct2, THEN conjunct2, THEN conjunct2]
  have a: "errorClass (newAuthenticationError ''Authentication failed'') = AuthenticationErrorC"
    and b: "errorClass (newRateLimitError ''Rate limit exceeded'' (Num 9000)) = RateLimitErrorC (Num 9000)"
    and c: "\<forall>rt. errorClass unavailableError \<noteq> RateLimitErrorC rt"
    and s: "errorClass unavailableError = DockerHubErrorC \<and> (\<exists>c. statusCode unavailableError = Some c \<and> (500 \<le> c \<or> c = 429))"
    by (simp_all add: newAuthenticationError_def newRateLimitError_def unavailableError_def newDockerHubError_def)
  from p1 have 1: "withErrorHandling alwaysUnavailable 3 fullWorld
      = (Inl (ThrownDH unavailableError), fullWorld\<lparr>clock := 3005\<rparr>)" by (simp only: fst_conv)
  have f: "alwaysUnavailable v = (Inl (statusRejection unavailable), v)" for v
    by (simp add: alwaysUnavailable_def)
  have "case [Retried unavailableError 5 (Num 1000) 1005, Retried unavailableError 1005 (Num 2000) 3005,
          Surfaced unavailableError 3005] ! 0 of
          Retried e t d t' \<Rightarrow>
            (\<exists>x w1. alwaysUnavailable (attemptStart alwaysUnavailable 1 0 fullWorld) = (Inl x, w1)
                \<and> handleError (clock w1) x = Inr e \<and> t = clock w1
                \<and> attemptStart alwaysUnavailable 1 (Suc 0) fullWorld = w1\<lparr>clock := t'\<rparr>)
        | _ \<Rightarrow> True"
    using p5 [rule_format, of 0] by (simp del: attemptStart.simps)
  then obtain x w1 where
      x: "alwaysUnavailable (attemptStart alwaysUnavailable 1 0 fullWorld) = (Inl x, w1)"
      and n: "attemptStart alwaysUnavailable 1 (Suc 0) fullWorld = w1\<lparr>clock := 1005\<rparr>"
    by (auto simp del: attemptStart.simps)
  from x have "w1 = fullWorld" by (simp add: f)
  with n have 6: "attemptStart alwaysUnavailable 1 (Suc 0) fullWorld = fullWorld\<lparr>clock := 1005\<rparr>"
    by (simp only:)
  from p6 s have 2: "isRetryable unavailableError" by blast
  from p7 a have 3: "\<not> isRetryable (newAuthenticationError ''Authentication failed'')" by blast
  from p8 b have "getRetryDelay 5 (newRateLimitError ''Rate limit exceeded'' (Num 9000)) 1 = Num (max 0 (9000 - 5))"
    by blast
  then have 4: "getRetryDelay 5 (newRateLimitError ''Rate limit exceeded'' (Num 9000)) 1 = Num 8995" by simp
  from p9 c have "getRetryDelay 5 unavailableError 6 = Num (min 30000 (1000 * 2 ^ (6 - 1)))" by simp
  then have 5: "getRetryDelay 5 unavailableError 6 = Num 30000" by simp
  from 1 2 3 4 5 6 f [of fullWorld] show ?thesis
    by (simp only: alwaysUnavailable_trace snd_conv simp_thms)
qed


text \<open>
  The statement that only rate-limit errors and errors with a status from 500 to 599 are
  retried, and that a rate-limit error is waited for until its reset time, does not hold.
  A response with the status 600 normalises to an error that is retryable, and a function
  that always fails with it is called three times, with the delays 1000 and 2000. A
  response with the status 429 whose \<open>ratelimit-reset\<close> header is a date normalises to a
  \<open>RateLimitError\<close> whose reset time is not a number; the delay is then not a number either,
  and a function that always fails with it is called three times at the same instant.
\<close>

theorem withErrorHandling_retries_600_and_undated_429:
  "handleError 5 (statusRejection sixHundred) = Inr sixHundredError
   \<and> errorClass sixHundredError = DockerHubErrorC \<and> statusCode sixHundredError = Some 600
   \<and> isRetryable sixHundredError
   \<and> attemptLoop alwaysSixHundred 3 1 None fullWorld
       = ((Inl (ThrownDH sixHundredError), fullWorld\<lparr>clock := 3005\<rparr>),
          [Retried sixHundredError 5 (Num 1000) 1005, Retried sixHundredError 1005 (Num 2000) 3005,
           Surfaced sixHundredError 3005])
   \<and> withErrorHandling alwaysSixHundred 3 fullWorld
       = (Inl (ThrownDH sixHundredError), fullWorld\<lparr>clock := 3005\<rparr>)
   \<and> handleError 5 (statusRejection datedLimit) = Inr datedLimitError
   \<and> errorClass datedLimitError = RateLimitErrorC NaN
   \<and> getRetryDelay 5 datedLimitError 1 = NaN
   \<and> attemptLoop alwaysDatedLimit 3 1 None fullWorld
       = ((Inl (ThrownDH datedLimitError), fullWorld),
          [Retried datedLimitError 5 NaN 5, Retried datedLimitError 5 NaN 5, Surfaced datedLimitError 5])
   \<and> withErrorHandling alwaysDatedLimit 3 fullWorld = (Inl (ThrownDH datedLimitError), fullWorld)"
proof -
  have c5: "clock fullWorld = 5" by (simp add: fullWorld_def)
  have r6: "isRetryable sixHundredError"
    by (simp add: isRetryable_def sixHundredError_def newDockerHubError_def)
  have rd: "isRetryable datedLimitError"
    by (simp add: isRetryable_def datedLimitError_def newRateLimitError_def)
  have d6: "getRetryDelay t sixHundredError 1 = Num 1000" "getRetryDelay t sixHundredError 2 = Num 2000" for t
    by (simp_all add: getRetryDelay_def sixHundredError_def newDockerHubError_def)
  have dd: "getRetryDelay t datedLimitError a = NaN" for t a
    by (simp add: getRetryDelay_def datedLimitError_def newRateLimitError_def)
  have n6: "nextStart alwaysSixHundred 1 fullWorld = fullWorld\<lparr>clock := 1005\<rparr>"
      "nextStart alwaysSixHundred 2 (fullWorld\<lparr>clock := 1005\<rparr>) = fullWorld\<lparr>clock := 3005\<rparr>"
    by (simp_all add: nextStart_def alwaysSixHundred_def handleError_sixHundred d6 sleep_def c5
          del: One_nat_def)
  have nd: "nextStart alwaysDatedLimit a v = v" for a v
    by (simp add: nextStart_def alwaysDatedLimit_def handleError_datedLimit dd)
  have t6: "attemptLoop alwaysSixHundred 3 1 None fullWorld
       = ((Inl (ThrownDH sixHundredError), fullWorld\<lparr>clock := 3005\<rparr>),
          [Retried sixHundredError 5 (Num 1000) 1005, Retried sixHundredError 1005 (Num 2000) 3005,
           Surfaced sixHundredError 3005])"
    using constant_failure_trace [of alwaysSixHundred "statusRejection sixHundred" sixHundredError fullWorld]
    by (simp add: alwaysSixHundred_def handleError_sixHundred r6 n6 d6 c5 del: One_nat_def)
  have td: "attemptLoop alwaysDatedLimit 3 1 None fullWorld
       = ((Inl (ThrownDH datedLimitError), fullWorld),
          [Retried datedLimitError 5 NaN 5, Retried datedLimitError 5 NaN 5, Surfaced datedLimitError 5])"
    using constant_failure_trace [of alwaysDatedLimit "statusRejection datedLimit" datedLimitError fullWorld]
    by (simp add: alwaysDatedLimit_def handleError_datedLimit rd nd dd c5 del: One_nat_def)
  have w6: "withErrorHandling alwaysSixHundred 3 fullWorld
       = (Inl (ThrownDH sixHundredError), fullWorld\<lparr>clock := 3005\<rparr>)"
    by (simp add: withErrorHandling_def t6 del: One_nat_def)
  have wd: "withErrorHandling alwaysDatedLimit 3 fullWorld = (Inl (ThrownDH datedLimitError), fullWorld)"
    by (simp add: withErrorHandling_def td del: One_nat_def)
  have cl: "errorClass sixHundredError = DockerHubErrorC" "statusCode sixHundredError = Some 600"
      "errorClass datedLimitError = RateLimitErrorC NaN"
    by (simp_all add: sixHundredError_def newDockerHubError_def datedLimitError_def newRateLimitError_def)
  from t6 td w6 wd r6 dd [of 5 1] cl handleError_sixHundred [of 5] handleError_datedLimit [of 5]
  show ?thesis by (simp only: simp_thms)
qed

section \<open>Discovery of the token endpoint of a private registry\<close>

lemma stripPrefix_Some: "stripPrefix p s = Some r \<Longrightarrow> s = p @ r"
  by (induction p s rule: stripPrefix.induct) (auto split: if_splits)

lemma realmAt_Some:
  assumes "realmAt s = Some v"
  shows "(\<exists>post. s = ''realm='' @ [CHR 0x22] @ v @ [CHR 0x22] @ post) \<and> v \<noteq> [] \<and> CHR 0x22 \<notin> set v"
proof -
  from assms obtain r where r: "stripPrefix (''realm='' @ [CHR 0x22]) s = Some r"
    and v: "v = takeWhile (\<lambda>c. c \<noteq> CHR 0x22) r" and ne: "v \<noteq> []"
    and d: "dropWhile (\<lambda>c. c \<noteq> CHR 0x22) r \<noteq> []"
    by (auto simp: realmAt_def Let_def split: option.splits if_splits)
  from d obtain x post where xp: "dropWhile (\<lambda>c. c \<noteq> CHR 0x22) r = x # post"
    by (cases "dropWhile (\<lambda>c. c \<noteq> CHR 0x22) r") auto
  with hd_dropWhile [OF d] have "x = CHR 0x22" by simp
  with xp have post: "dropWhile (\<lambda>c. c \<noteq> CHR 0x22) r = CHR 0x22 # post" by simp
  have "r = v @ CHR 0x22 # post"
    using takeWhile_dropWhile_id [of "\<lambda>c. c \<noteq> CHR 0x22" r] v post by simp
  moreover have "s = (''realm='' @ [CHR 0x22]) @ r" using r by (rule stripPrefix_Some)
  moreover have "CHR 0x22 \<notin> set v" unfolding v by (auto dest: set_takeWhileD)
  ultimately show ?thesis using ne by auto
qed

lemma matchRealm_Some:
  "matchRealm h = Some v \<Longrightarrow>
   (\<exists>pre post. h = pre @ ''realm='' @ [CHR 0x22] @ v @ [CHR 0x22] @ post) \<and> v \<noteq> [] \<and> CHR 0x22 \<notin> set v"
proof (induction h)
  case Nil
  then show ?case by simp
next
  case (Cons c cs)
  show ?case
  proof (cases "realmAt (c # cs)")
    case (Some u)
    with Cons.prems have "u = v" by simp
    with realmAt_Some [OF Some] show ?thesis by (metis append_Nil)
  next
    case None
    with Cons.prems have "matchRealm cs = Some v" by simp
    from Cons.IH [OF this] obtain pre post where
      "cs = pre @ ''realm='' @ [CHR 0x22] @ v @ [CHR 0x22] @ post" "v \<noteq> []" "CHR 0x22 \<notin> set v"
      by blast
    then have "c # cs = (c # pre) @ ''realm='' @ [CHR 0x22] @ v @ [CHR 0x22] @ post" by simp
    with \<open>v \<noteq> []\<close> \<open>CHR 0x22 \<notin> set v\<close> show ?thesis by blast
  qed
qed


text \<open>
  C9, as amended. \<open>discoverAuthEndpoint\<close> sends one probe, a \<open>GET\<close> of
  \<open><registryUrl>/v2/\<close>. When the answer has the status 401 and its \<open>WWW-Authenticate\<close>
  header contains \<open>realm="..."\<close> with a value that is not empty, that value is returned.
  When the answer has the status 401 and the header is absent or has no such realm, the
  guess \<open><protocol>//auth.<hostname>/token\<close> is returned. The result is \<open>null\<close> exactly
  when the probe received no response, or a response with a status other than 401 (which
  the probe does not accept), or when the guess is needed and \<open>registryUrl\<close> does not parse
  as a URL.
\<close>

theorem discoverAuthEndpoint_result:
  assumes probe: "http E (sent w) (clock w) (Get (registryUrl @ ''/v2/'') []) = (reply, dt)"
  shows "sent (snd (discoverAuthEndpoint E registryUrl w)) = sent w @ [Get (registryUrl @ ''/v2/'') []]
       \<and> (\<forall>r h realm. reply = Response r \<and> status r = 401 \<and> headers r ''www-authenticate'' = Some h
             \<and> matchRealm h = Some realm \<longrightarrow>
             fst (discoverAuthEndpoint E registryUrl w) = Some realm
             \<and> (\<exists>pre post. h = pre @ ''realm='' @ [CHR 0x22] @ realm @ [CHR 0x22] @ post)
             \<and> realm \<noteq> [] \<and> CHR 0x22 \<notin> set realm)
       \<and> (\<forall>r. reply = Response r \<and> status r = 401
             \<and> (headers r ''www-authenticate'' = None
                  \<or> (\<exists>h. headers r ''www-authenticate'' = Some h \<and> matchRealm h = None)) \<longrightarrow>
             fst (discoverAuthEndpoint E registryUrl w)
               = (case parseURL E registryUrl of
                    Some (protocol, hostname) \<Rightarrow> Some (protocol @ ''//auth.'' @ hostname @ ''/token'')
                  | None \<Rightarrow> None))
       \<and> (fst (discoverAuthEndpoint E registryUrl w) = None \<longleftrightarrow>
             (\<exists>m. reply = NoResponse m)
             \<or> (\<exists>r. reply = Response r \<and> status r \<noteq> 401)
             \<or> (\<exists>r. reply = Response r \<and> status r = 401
                     \<and> (headers r ''www-authenticate'' = None
                          \<or> (\<exists>h. headers r ''www-authenticate'' = Some h \<and> matchRealm h = None))
                     \<and> parseURL E registryUrl = None))"
proof -
  define found where "found r = (case headers r ''www-authenticate'' of
                           Some wwwAuth \<Rightarrow> if wwwAuth \<noteq> [] then matchRealm wwwAuth else None
                         | None \<Rightarrow> None)" for r :: AxiosResponse
  define fallback where "fallback = (case parseURL E registryUrl of
                    Some (protocol, hostname) \<Rightarrow> Some (protocol @ ''//auth.'' @ hostname @ ''/token'')
                  | None \<Rightarrow> None)"
  have res: "fst (discoverAuthEndpoint E registryUrl w)
      = (case reply of NoResponse m \<Rightarrow> None
         | Response r \<Rightarrow> if status r \<noteq> 401 then None
                         else (case found r of Some realm \<Rightarrow> Some realm | None \<Rightarrow> fallback))"
    using probe
    by (simp add: discoverAuthEndpoint_def Let_def found_def fallback_def
          split: httpReply.splits option.splits)
  have found_iff: "found r = None \<longleftrightarrow> headers r ''www-authenticate'' = None
                  \<or> (\<exists>h. headers r ''www-authenticate'' = Some h \<and> matchRealm h = None)" for r
    by (cases "headers r ''www-authenticate''") (auto simp: found_def)
  have found_Some: "headers r ''www-authenticate'' = Some h \<Longrightarrow> matchRealm h = Some realm \<Longrightarrow>
                    found r = Some realm" for r h realm
    by (cases h) (auto simp: found_def)
  have fb: "fallback = None \<longleftrightarrow> parseURL E registryUrl = None"
    by (simp add: fallback_def split: option.splits)
  have 1: "sent (snd (discoverAuthEndpoint E registryUrl w)) = sent w @ [Get (registryUrl @ ''/v2/'') []]"
    using probe by (simp add: discoverAuthEndpoint_def Let_def split: httpReply.splits option.splits)
  have 2: "fst (discoverAuthEndpoint E registryUrl w) = Some realm
             \<and> (\<exists>pre post. h = pre @ ''realm='' @ [CHR 0x22] @ realm @ [CHR 0x22] @ post)
             \<and> realm \<noteq> [] \<and> CHR 0x22 \<notin> set realm"
    if "reply = Response r \<and> status r = 401 \<and> headers r ''www-authenticate'' = Some h
             \<and> matchRealm h = Some realm" for r h realm
  proof -
    from that have "found r = Some realm" by (simp add: found_Some)
    with that have "fst (discoverAuthEndpoint E registryUrl w) = Some realm" by (simp add: res)
    moreover from that have "matchRealm h = Some realm" by simp
    note matchRealm_Some [OF this]
    ultimately show ?thesis by simp
  qed
  have 3: "fst (discoverAuthEndpoint E registryUrl w) = fallback"
    if "reply = Response r \<and> status r = 401
             \<and> (headers r ''www-authenticate'' = None
                  \<or> (\<exists>h. headers r ''www-authenticate'' = Some h \<and> matchRealm h = None))" for r
  proof -
    from that have "found r = None" by (simp add: found_iff)
    with that show ?thesis by (simp add: res)
  qed
  have 4: "fst (discoverAuthEndpoint E registryUrl w) = None \<longleftrightarrow>
             (\<exists>m. reply = NoResponse m)
             \<or> (\<exists>r. reply = Response r \<and> status r \<noteq> 401)
             \<or> (\<exists>r. reply = Response r \<and> status r = 401
                     \<and> (headers r ''www-authenticate'' = None
                          \<or> (\<exists>h. headers r ''www-authenticate'' = Some h \<and> matchRealm h = None))
                     \<and> parseURL E registryUrl = None)"
  proof (cases reply)
    case (NoResponse m)
    then show ?thesis by (simp add: res)
  next
    case (Response r)
    show ?thesis
    proof (cases "status r = 401")
      case False
      with Response show ?thesis by (simp add: res)
    next
      case True
      show ?thesis
      proof (cases "found r")
        case None
        with True Response found_iff [of r] fb show ?thesis by (simp add: res)
      next
        case (Some realm)
        with True Response found_iff [of r] show ?thesis by (simp add: res)
      qed
    qed
  qed
  from 1 2 3 4 show ?thesis unfolding fallback_def by blast
qed

lemma matchRealm_challenge:
  "matchRealm (''Bearer realm='' @ [CHR 0x22] @ ''https://auth.example.com/token'' @ [CHR 0x22]
                      @ '',service='' @ [CHR 0x22] @ ''registry.example.com'' @ [CHR 0x22])
   = Some ''https://auth.example.com/token''"
  by (simp add: realmAt_def)

theorem discoverAuthEndpoint_result_witness:
  "http registryEnv (sent startWorld) (clock startWorld) (Get (''https://registry.example.com'' @ ''/v2/'') [])
     = (Response challenge, 10)
   \<and> fst (discoverAuthEndpoint registryEnv ''https://registry.example.com'' startWorld)
     = Some ''https://auth.example.com/token''
   \<and> fst (discoverAuthEndpoint (registryEnv\<lparr>http := (\<lambda>_ _ _. (Response (challenge\<lparr>headers := Map.empty\<rparr>), 10))\<rparr>)
          ''https://registry.example.com'' startWorld)
     = Some ''https://auth.registry.example.com/token''
   \<and> (fst (discoverAuthEndpoint offlineEnv ''https://registry.example.com'' startWorld) = None)"
proof -
  have p1: "http registryEnv (sent startWorld) (clock startWorld) (Get (''https://registry.example.com'' @ ''/v2/'') [])
     = (Response challenge, 10)"
    by (simp add: registryEnv_def)
  have h1: "Response challenge = Response challenge \<and> status challenge = 401
     \<and> headers challenge ''www-authenticate'' = Some (''Bearer realm='' @ [CHR 0x22] @ ''https://auth.example.com/token'' @ [CHR 0x22]
                      @ '',service='' @ [CHR 0x22] @ ''registry.example.com'' @ [CHR 0x22])
     \<and> matchRealm (''Bearer realm='' @ [CHR 0x22] @ ''https://auth.example.com/token'' @ [CHR 0x22]
                      @ '',service='' @ [CHR 0x22] @ ''registry.example.com'' @ [CHR 0x22])
         = Some ''https://auth.example.com/token''"
    using matchRealm_challenge by (simp add: challenge_def)
  from discoverAuthEndpoint_result [OF p1] h1
  have 1: "fst (discoverAuthEndpoint registryEnv ''https://registry.example.com'' startWorld)
     = Some ''https://auth.example.com/token''" by blast
  let ?E = "registryEnv\<lparr>http := (\<lambda>_ _ _. (Response (challenge\<lparr>headers := Map.empty\<rparr>), 10))\<rparr>"
  have p2: "http ?E (sent startWorld) (clock startWorld) (Get (''https://registry.example.com'' @ ''/v2/'') [])
     = (Response (challenge\<lparr>headers := Map.empty\<rparr>), 10)"
    by simp
  have h2: "Response (challenge\<lparr>headers := Map.empty\<rparr>) = Response (challenge\<lparr>headers := Map.empty\<rparr>)
     \<and> status (challenge\<lparr>headers := Map.empty\<rparr>) = 401
     \<and> (headers (challenge\<lparr>headers := Map.empty\<rparr>) ''www-authenticate'' = None
          \<or> (\<exists>h. headers (challenge\<lparr>headers := Map.empty\<rparr>) ''www-authenticate'' = Some h \<and> matchRealm h = None))"
    by (simp add: challenge_def)
  from discoverAuthEndpoint_result [OF p2] h2
  have "fst (discoverAuthEndpoint ?E ''https://registry.example.com'' startWorld)
     = (case parseURL ?E ''https://registry.example.com'' of
                    Some (protocol, hostname) \<Rightarrow> Some (protocol @ ''//auth.'' @ hostname @ ''/token'')
                  | None \<Rightarrow> None)" by blast
  then have 2: "fst (discoverAuthEndpoint ?E ''https://registry.example.com'' startWorld)
     = Some ''https://auth.registry.example.com/token''"
    by (simp add: registryEnv_def exampleURL_def)
  have p3: "http offlineEnv (sent startWorld) (clock startWorld) (Get (''https://registry.example.com'' @ ''/v2/'') [])
     = (NoResponse ''Network Error'', 0)"
    by (simp add: offlineEnv_def)
  from discoverAuthEndpoint_result [OF p3]
  have 3: "fst (discoverAuthEndpoint offlineEnv ''https://registry.example.com'' startWorld) = None" by blast
  from p1 1 2 3 show ?thesis by simp
qed


text \<open>
  The stronger statement, that the result is \<open>null\<close> only when no response was received,
  does not hold: a registry that answers the probe with 200 gives \<open>null\<close>.
\<close>

theorem discoverAuthEndpoint_null_on_200:
  "http openRegistryEnv (sent startWorld) (clock startWorld) (Get ''https://registry.example.com/v2/'' [])
     = (Response \<lparr>status = 200, data = JObj [], headers = Map.empty\<rparr>, 10)
   \<and> fst (discoverAuthEndpoint openRegistryEnv ''https://registry.example.com'' startWorld) = None"
  by (simp add: openRegistryEnv_def registryEnv_def discoverAuthEndpoint_def)

section \<open>Token acquisition for Docker Hub with refused credentials\<close>

lemma handleError_statusRejection:
  assumes "handleError t (statusRejection r) = Inr e"
  shows "(status r = 401 \<longrightarrow> errorClass e = AuthenticationErrorC)
       \<and> (status r \<noteq> 401 \<longrightarrow> errorClass e \<noteq> AuthenticationErrorC)
       \<and> (status r = 404 \<longrightarrow> statusCode e = Some 404 \<and> errorClass e = DockerHubErrorC)
       \<and> (status r \<noteq> 404 \<longrightarrow> statusCode e \<noteq> Some 404)"
  using assms
  by (auto simp: handleError_def handleAxiosError_def statusRejection_def Let_def
        newDockerHubError_def newAuthenticationError_def newRateLimitError_def
        split: sum.splits if_splits)

lemma handleError_networkRejection:
  "handleError t (networkRejection m)
   = Inr (newDockerHubError ''Network error: Unable to reach Docker Hub API'' None None)"
  by (simp add: handleError_def handleAxiosError_def networkRejection_def)

lemma requestToken_refused:
  assumes "tokenEndpoint E (sent w) (clock w) req = (TokenRefused r, dt)"
  shows "fst (requestToken E req key w)
         = (case handleError (clock w + int dt) (statusRejection r) of Inl t \<Rightarrow> Inl t | Inr e \<Rightarrow> Inr (Inl e))"
    and "snd (requestToken E req key w) = w\<lparr>sent := sent w @ [req], clock := clock w + int dt\<rparr>"
  using assms by (simp_all add: requestToken_def Let_def split: sum.splits)

lemma requestToken_noResponse:
  assumes "tokenEndpoint E (sent w) (clock w) req = (TokenNoResponse m, dt)"
  shows "requestToken E req key w
         = (Inr (Inl (newDockerHubError ''Network error: Unable to reach Docker Hub API'' None None)),
            w\<lparr>sent := sent w @ [req], clock := clock w + int dt\<rparr>)"
  using assms by (simp add: requestToken_def Let_def handleError_networkRejection)

lemma requestToken_granted:
  assumes "tokenEndpoint E (sent w) (clock w) req = (TokenGranted body, dt)"
  shows "requestToken E req key w
         = (Inr (Inr (token body)),
            w\<lparr>sent := sent w @ [req], clock := clock w + int dt,
               tokenCache := (tokenCache w)(key \<mapsto> \<lparr>cachedToken = token body,
                  expiresAt = clock w + int dt
                    + (case expires_in body of Some n \<Rightarrow> if n \<noteq> 0 then n else 3600 | None \<Rightarrow> 3600) * 1000\<rparr>)\<rparr>)"
  using assms by (simp add: requestToken_def Let_def)

lemma handleError_refusal:
  "handleError t (statusRejection refusal) = Inr (newAuthenticationError ''Request failed with status code 401'')"
proof -
  have "intString 401 = ''401''" by code_simp
  then show ?thesis
    by (simp add: handleError_def handleAxiosError_def statusRejection_def refusal_def
        extractMessage_def messageOr_def)
qed


text \<open>
  C1, as amended. No access token is configured, a user name and a password are, and no
  valid token is cached, so \<open>getDockerHubToken\<close> asks the token endpoint. When the endpoint
  refuses with the status 401 and the refusal is normalised to an error, that error is an
  \<open>AuthenticationError\<close>, \<open>getDockerHubToken\<close> throws it and \<open>createAuthHeaders\<close> throws the
  same error: no header map is returned. When the endpoint refuses with another status and
  the refusal is normalised to an error, or when there is no response, \<open>getDockerHubToken\<close>
  returns \<open>null\<close> and \<open>createAuthHeaders\<close> returns the empty header map, without an
  \<open>Authorization\<close> entry.
\<close>

theorem getDockerHubToken_invalid_credentials:
  assumes noToken: "\<not> truthyStr (accessToken (dockerhub E))"
    and user: "truthyStr (username (dockerhub E))" and pass: "truthyStr (password (dockerhub E))"
    and noCache: "cacheLookup w (''dockerhub:'' @ strOr scope ''default'') = None"
    and reply: "tokenEndpoint E (sent w) (clock w)
                  (TokenPost ''https://auth.docker.io/token'' ''registry.docker.io''
                     (if truthyStr scope then scope else None)
                     (the (username (dockerhub E))) (the (password (dockerhub E)))) = (reply, dt)"
  shows "(\<forall>r e. reply = TokenRefused r \<and> status r = 401
              \<and> handleError (clock w + int dt) (statusRejection r) = Inr e \<longrightarrow>
            errorClass e = AuthenticationErrorC
            \<and> fst (getDockerHubToken E scope w) = Inl (ThrownDH e)
            \<and> fst (createAuthHeaders E None scope w) = Inl (ThrownDH e))
       \<and> (\<forall>r e. reply = TokenRefused r \<and> status r \<noteq> 401
              \<and> handleError (clock w + int dt) (statusRejection r) = Inr e \<longrightarrow>
            fst (getDockerHubToken E scope w) = Inr None
            \<and> fst (createAuthHeaders E None scope w) = Inr [])
       \<and> (\<forall>m. reply = TokenNoResponse m \<longrightarrow>
            fst (getDockerHubToken E scope w) = Inr None
            \<and> fst (createAuthHeaders E None scope w) = Inr [])"
proof -
  define req where "req = TokenPost ''https://auth.docker.io/token'' ''registry.docker.io''
                     (if truthyStr scope then scope else None)
                     (the (username (dockerhub E))) (the (password (dockerhub E)))"
  define key where "key = ''dockerhub:'' @ strOr scope ''default''"
  have tok: "getDockerHubToken E scope w
      = (case requestToken E req key w of
           (Inr (Inr t), w1) \<Rightarrow> (Inr (Some t), w1)
         | (Inl t, w1) \<Rightarrow> (Inl t, w1)
         | (Inr (Inl dockerHubError), w1) \<Rightarrow>
             if errorClass dockerHubError = AuthenticationErrorC
             then (Inl (ThrownDH dockerHubError), w1) else (Inr None, w1))"
    using noToken user pass noCache by (simp add: getDockerHubToken_def Let_def req_def key_def)
  have hdr: "fst (createAuthHeaders E None scope w)
      = (case fst (getDockerHubToken E scope w) of
           Inl t \<Rightarrow> Inl t
         | Inr tk \<Rightarrow> Inr (if truthyStr tk then [(''Authorization'', ''Bearer '' @ the tk)] else []))"
    by (simp add: createAuthHeaders_def split: prod.splits sum.splits)
  have a: "errorClass e = AuthenticationErrorC
            \<and> fst (getDockerHubToken E scope w) = Inl (ThrownDH e)
            \<and> fst (createAuthHeaders E None scope w) = Inl (ThrownDH e)"
    if "reply = TokenRefused r \<and> status r = 401
        \<and> handleError (clock w + int dt) (statusRejection r) = Inr e" for r e
  proof -
    from that have auth: "errorClass e = AuthenticationErrorC"
      using handleError_statusRejection [of "clock w + int dt" r e] by simp
    from that reply have "requestToken E req key w
        = (Inr (Inl e), w\<lparr>sent := sent w @ [req], clock := clock w + int dt\<rparr>)"
      using requestToken_refused [of E w req r dt key] by (simp add: req_def prod_eq_iff)
    with auth have "fst (getDockerHubToken E scope w) = Inl (ThrownDH e)" by (simp add: tok)
    with auth show ?thesis by (simp add: hdr)
  qed
  have b: "fst (getDockerHubToken E scope w) = Inr None \<and> fst (createAuthHeaders E None scope w) = Inr []"
    if "reply = TokenRefused r \<and> status r \<noteq> 401
        \<and> handleError (clock w + int dt) (statusRejection r) = Inr e" for r e
  proof -
    from that have na: "errorClass e \<noteq> AuthenticationErrorC"
      using handleError_statusRejection [of "clock w + int dt" r e] by simp
    from that reply have "requestToken E req key w
        = (Inr (Inl e), w\<lparr>sent := sent w @ [req], clock := clock w + int dt\<rparr>)"
      using requestToken_refused [of E w req r dt key] by (simp add: req_def prod_eq_iff)
    with na have "fst (getDockerHubToken E scope w) = Inr None" by (simp add: tok)
    then show ?thesis by (simp add: hdr)
  qed
  have c: "fst (getDockerHubToken E scope w) = Inr None \<and> fst (createAuthHeaders E None scope w) = Inr []"
    if "reply = TokenNoResponse m" for m
  proof -
    from that reply have "requestToken E req key w
        = (Inr (Inl (newDockerHubError ''Network error: Unable to reach Docker Hub API'' None None)),
            w\<lparr>sent := sent w @ [req], clock := clock w + int dt\<rparr>)"
      by (intro requestToken_noResponse) (simp add: req_def)
    then have "fst (getDockerHubToken E scope w) = Inr None"
      by (simp add: tok newDockerHubError_def)
    then show ?thesis by (simp add: hdr)
  qed
  from a b c show ?thesis by blast
qed

theorem getDockerHubToken_invalid_credentials_witness:
  "handleError (clock startWorld + int 10) (statusRejection refusal)
     = Inr (newAuthenticationError ''Request failed with status code 401'')
   \<and> fst (getDockerHubToken badCredentialsEnv None startWorld)
     = Inl (ThrownDH (newAuthenticationError ''Request failed with status code 401''))
   \<and> fst (createAuthHeaders badCredentialsEnv None None startWorld)
     = Inl (ThrownDH (newAuthenticationError ''Request failed with status code 401''))
   \<and> fst (getDockerHubToken (badCredentialsEnv\<lparr>tokenEndpoint := (\<lambda>_ _ _. (TokenNoResponse ''timeout'', 10))\<rparr>)
          None startWorld) = Inr None
   \<and> fst (createAuthHeaders (badCredentialsEnv\<lparr>tokenEndpoint := (\<lambda>_ _ _. (TokenNoResponse ''timeout'', 10))\<rparr>)
          None None startWorld) = Inr []
   \<and> handleError (clock startWorld + int 10) (statusRejection unavailable) = Inr unavailableError
   \<and> fst (getDockerHubToken (badCredentialsEnv\<lparr>tokenEndpoint := (\<lambda>_ _ _. (TokenRefused unavailable, 10))\<rparr>)
          None startWorld) = Inr None
   \<and> fst (createAuthHeaders (badCredentialsEnv\<lparr>tokenEndpoint := (\<lambda>_ _ _. (TokenRefused unavailable, 10))\<rparr>)
          None None startWorld) = Inr []"
proof -
  let ?req = "TokenPost ''https://auth.docker.io/token'' ''registry.docker.io''
                     (if truthyStr None then None else None)
                     (the (username (dockerhub badCredentialsEnv))) (the (password (dockerhub badCredentialsEnv)))"
  have c: "\<not> truthyStr (accessToken (dockerhub badCredentialsEnv))"
      "truthyStr (username (dockerhub badCredentialsEnv))" "truthyStr (password (dockerhub badCredentialsEnv))"
      "cacheLookup startWorld (''dockerhub:'' @ strOr None ''default'') = None"
    by (simp_all add: badCredentialsEnv_def cacheLookup_def startWorld_def)
  have r: "tokenEndpoint badCredentialsEnv (sent startWorld) (clock startWorld) ?req = (TokenRefused refusal, 10)"
    by (simp add: badCredentialsEnv_def)
  have s: "status refusal = 401" by (simp add: refusal_def)
  note n = handleError_refusal [of "clock startWorld + int 10"]
  from getDockerHubToken_invalid_credentials [OF c r] s n
  have 1: "fst (getDockerHubToken badCredentialsEnv None startWorld)
        = Inl (ThrownDH (newAuthenticationError ''Request failed with status code 401''))"
      "fst (createAuthHeaders badCredentialsEnv None None startWorld)
        = Inl (ThrownDH (newAuthenticationError ''Request failed with status code 401''))"
    by blast+
  let ?E = "badCredentialsEnv\<lparr>tokenEndpoint := (\<lambda>_ _ _. (TokenNoResponse ''timeout'', 10))\<rparr>"
  have c': "\<not> truthyStr (accessToken (dockerhub ?E))"
      "truthyStr (username (dockerhub ?E))" "truthyStr (password (dockerhub ?E))"
      "cacheLookup startWorld (''dockerhub:'' @ strOr None ''default'') = None"
    by (simp_all add: badCredentialsEnv_def cacheLookup_def startWorld_def)
  have r': "tokenEndpoint ?E (sent startWorld) (clock startWorld)
      (TokenPost ''https://auth.docker.io/token'' ''registry.docker.io''
                     (if truthyStr None then None else None)
                     (the (username (dockerhub ?E))) (the (password (dockerhub ?E))))
      = (TokenNoResponse ''timeout'', 10)"
    by simp
  from getDockerHubToken_invalid_credentials [OF c' r']
  have 2: "fst (getDockerHubToken ?E None startWorld) = Inr None"
      "fst (createAuthHeaders ?E None None startWorld) = Inr []"
    by blast+
  let ?F = "badCredentialsEnv\<lparr>tokenEndpoint := (\<lambda>_ _ _. (TokenRefused unavailable, 10))\<rparr>"
  have c'': "\<not> truthyStr (accessToken (dockerhub ?F))"
      "truthyStr (username (dockerhub ?F))" "truthyStr (password (dockerhub ?F))"
      "cacheLookup startWorld (''dockerhub:'' @ strOr None ''default'') = None"
    by (simp_all add: badCredentialsEnv_def cacheLookup_def startWorld_def)
  have r'': "tokenEndpoint ?F (sent startWorld) (clock startWorld)
      (TokenPost ''https://auth.docker.io/token'' ''registry.docker.io''
                     (if truthyStr None then None else None)
                     (the (username (dockerhub ?F))) (the (password (dockerhub ?F))))
      = (TokenRefused unavailable, 10)"
    by simp
  have s'': "status unavailable \<noteq> 401" by (simp add: unavailable_def)
  have n'': "handleError (clock startWorld + int 10) (statusRejection unavailable) = Inr unavailableError"
    by (simp add: handleError_def handleAxiosError_def statusRejection_def unavailable_def
          extractMessage_def unavailableError_def)
  from getDockerHubToken_invalid_credentials [OF c'' r''] s'' n''
  have 3: "fst (getDockerHubToken ?F None startWorld) = Inr None"
      "fst (createAuthHeaders ?F None None startWorld) = Inr []"
    by blast+
  from n 1 2 n'' 3 show ?thesis by (simp only: simp_thms)
qed


text \<open>
  The statement that refused credentials give \<open>null\<close> and an empty header map does not
  hold: with the credentials refused by a 401 both functions throw.
\<close>

theorem getDockerHubToken_throws_on_401:
  "accessToken (dockerhub badCredentialsEnv) = None
   \<and> tokenEndpoint badCredentialsEnv (sent startWorld) (clock startWorld)
        (TokenPost ''https://auth.docker.io/token'' ''registry.docker.io'' None ''user'' ''wrong'')
       = (TokenRefused refusal, 10)
   \<and> status refusal = 401
   \<and> fst (getDockerHubToken badCredentialsEnv None startWorld)
       = Inl (ThrownDH (newAuthenticationError ''Request failed with status code 401''))
   \<and> fst (createAuthHeaders badCredentialsEnv None None startWorld)
       = Inl (ThrownDH (newAuthenticationError ''Request failed with status code 401''))"
proof -
  have g: "getDockerHubToken badCredentialsEnv None startWorld
      = (Inl (ThrownDH (newAuthenticationError ''Request failed with status code 401'')),
         startWorld\<lparr>sent := [TokenPost ''https://auth.docker.io/token'' ''registry.docker.io'' None ''user'' ''wrong''],
                     clock := 10\<rparr>)"
    by (simp add: getDockerHubToken_def badCredentialsEnv_def cacheLookup_def startWorld_def
          requestToken_def handleError_refusal newAuthenticationError_def)
  then show ?thesis
    by (simp add: createAuthHeaders_def badCredentialsEnv_def refusal_def)
qed

section \<open>Reuse of cached tokens\<close>

text \<open>
  On the Docker Hub path the cache is read before anything is sent: after a granted
  request, a second acquisition for the same scope at any time before the expiry returns
  the cached token and leaves the state, with the log of requests, as it is. The two
  acquisitions together send one token request.
\<close>

lemma getDockerHubToken_reuses_cached:
  assumes noToken: "\<not> truthyStr (accessToken (dockerhub E))"
    and user: "truthyStr (username (dockerhub E))" and pass: "truthyStr (password (dockerhub E))"
    and noCache: "cacheLookup w (''dockerhub:'' @ strOr scope ''default'') = None"
    and reply: "tokenEndpoint E (sent w) (clock w)
                  (TokenPost ''https://auth.docker.io/token'' ''registry.docker.io''
                     (if truthyStr scope then scope else None)
                     (the (username (dockerhub E))) (the (password (dockerhub E)))) = (TokenGranted body, dt)"
    and w1: "w1 = snd (getDockerHubToken E scope w)"
    and later: "clock w1 \<le> t"
    and alive: "t < clock w1 + (case expires_in body of Some n \<Rightarrow> if n \<noteq> 0 then n else 3600 | None \<Rightarrow> 3600) * 1000"
  shows "fst (getDockerHubToken E scope w) = Inr (Some (token body))
       \<and> sent w1 = sent w @ [TokenPost ''https://auth.docker.io/token'' ''registry.docker.io''
                     (if truthyStr scope then scope else None)
                     (the (username (dockerhub E))) (the (password (dockerhub E)))]
       \<and> getDockerHubToken E scope (w1\<lparr>clock := t\<rparr>) = (Inr (Some (token body)), w1\<lparr>clock := t\<rparr>)"
proof -
  let ?key = "''dockerhub:'' @ strOr scope ''default''"
  let ?req = "TokenPost ''https://auth.docker.io/token'' ''registry.docker.io''
                     (if truthyStr scope then scope else None)
                     (the (username (dockerhub E))) (the (password (dockerhub E)))"
  let ?life = "(case expires_in body of Some n \<Rightarrow> if n \<noteq> 0 then n else 3600 | None \<Rightarrow> 3600) * 1000"
  have first: "getDockerHubToken E scope w
      = (Inr (Some (token body)),
         w\<lparr>sent := sent w @ [?req], clock := clock w + int dt,
            tokenCache := (tokenCache w)(?key \<mapsto> \<lparr>cachedToken = token body,
                  expiresAt = clock w + int dt + ?life\<rparr>)\<rparr>)"
    using noToken user pass noCache requestToken_granted [OF reply, of ?key]
    by (simp add: getDockerHubToken_def Let_def)
  then have w1': "w1 = w\<lparr>sent := sent w @ [?req], clock := clock w + int dt,
            tokenCache := (tokenCache w)(?key \<mapsto> \<lparr>cachedToken = token body,
                  expiresAt = clock w + int dt + ?life\<rparr>)\<rparr>"
    using w1 by simp
  have "cacheLookup (w1\<lparr>clock := t\<rparr>) ?key = Some (token body)"
    using alive by (simp add: cacheLookup_def w1')
  then have "getDockerHubToken E scope (w1\<lparr>clock := t\<rparr>) = (Inr (Some (token body)), w1\<lparr>clock := t\<rparr>)"
    using noToken user pass by (simp add: getDockerHubToken_def Let_def)
  with first w1' show ?thesis by simp
qed

lemma probe_flaky_first:
  "discoverAuthEndpoint flakyRegistryEnv ''https://registry.example.com'' startWorld
   = (Some ''https://auth.example.com/token'',
      startWorld\<lparr>sent := [Get ''https://registry.example.com/v2/'' []], clock := 10\<rparr>)"
  by (simp add: discoverAuthEndpoint_def flakyRegistryEnv_def registryEnv_def startWorld_def
        challenge_def realmAt_def)

lemma first_flaky:
  "getPrivateRegistryToken flakyRegistryEnv exampleRegistry None startWorld = (Inr (Some ''T0''), afterFirst)"
proof -
  let ?w0 = "startWorld\<lparr>sent := [Get ''https://registry.example.com/v2/'' []], clock := 10\<rparr>"
  let ?req = "TokenPost ''https://auth.example.com/token'' ''registry.example.com'' None ''user'' ''secret''"
  have "tokenEndpoint flakyRegistryEnv (sent ?w0) (clock ?w0) ?req = (TokenGranted granted, 10)"
    by (simp add: flakyRegistryEnv_def registryEnv_def)
  from requestToken_granted [OF this, of "''registry:https://registry.example.com:default''"]
  have t: "requestToken flakyRegistryEnv ?req ''registry:https://registry.example.com:default'' ?w0
           = (Inr (Inr ''T0''), afterFirst)"
    by (simp add: granted_def afterFirst_def startWorld_def)
  have u: "parseURL flakyRegistryEnv ''https://registry.example.com'' = Some (''https:'', ''registry.example.com'')"
    by (simp add: flakyRegistryEnv_def registryEnv_def exampleURL_def)
  have c: "cacheLookup ?w0 ''registry:https://registry.example.com:default'' = None"
    by (simp add: cacheLookup_def startWorld_def)
  show ?thesis
    by (simp add: getPrivateRegistryToken_def exampleRegistry_def probe_flaky_first c u t)
qed

lemma second_flaky:
  "getPrivateRegistryToken flakyRegistryEnv exampleRegistry None afterFirst
   = (Inl (ThrownDH (newAuthenticationError
        ''Could not discover authentication endpoint for https://registry.example.com'')),
      afterFirst\<lparr>sent := sent afterFirst @ [Get ''https://registry.example.com/v2/'' []], clock := 30\<rparr>)"
proof -
  have "discoverAuthEndpoint flakyRegistryEnv ''https://registry.example.com'' afterFirst
        = (None, afterFirst\<lparr>sent := sent afterFirst @ [Get ''https://registry.example.com/v2/'' []], clock := 30\<rparr>)"
    by (simp add: discoverAuthEndpoint_def flakyRegistryEnv_def registryEnv_def afterFirst_def)
  then show ?thesis
    by (simp add: getPrivateRegistryToken_def exampleRegistry_def)
qed

lemma cached_afterFirst:
  "cacheLookup afterFirst ''registry:https://registry.example.com:default'' = Some ''T0''"
  by (simp add: cacheLookup_def afterFirst_def)


text \<open>
  C7. On the path for a private registry the endpoint discovery runs before the cache is
  read. The first acquisition for the sample registry sends the probe and the token
  request and caches the token \<open>T0\<close> until 300020. A second acquisition at time 20, with
  the token valid in the cache, sends the probe again. When that probe gets no response, the
  acquisition throws an \<open>AuthenticationError\<close> and the cached token is not used; when the
  probe is answered, the cached token is returned, after one more network call.
\<close>

theorem private_token_probed_before_cache:
  "getPrivateRegistryToken flakyRegistryEnv exampleRegistry None startWorld = (Inr (Some ''T0''), afterFirst)
   \<and> cacheLookup afterFirst ''registry:https://registry.example.com:default'' = Some ''T0''
   \<and> fst (getPrivateRegistryToken flakyRegistryEnv exampleRegistry None afterFirst)
       = Inl (ThrownDH (newAuthenticationError
            ''Could not discover authentication endpoint for https://registry.example.com''))
   \<and> sent (snd (getPrivateRegistryToken flakyRegistryEnv exampleRegistry None afterFirst))
       = [Get ''https://registry.example.com/v2/'' [],
          TokenPost ''https://auth.example.com/token'' ''registry.example.com'' None ''user'' ''secret'',
          Get ''https://registry.example.com/v2/'' []]
   \<and> getPrivateRegistryToken registryEnv exampleRegistry None afterFirst
       = (Inr (Some ''T0''),
          afterFirst\<lparr>sent := sent afterFirst @ [Get ''https://registry.example.com/v2/'' []], clock := 30\<rparr>)"
proof -
  have "discoverAuthEndpoint registryEnv ''https://registry.example.com'' afterFirst
        = (Some ''https://auth.example.com/token'',
           afterFirst\<lparr>sent := sent afterFirst @ [Get ''https://registry.example.com/v2/'' []], clock := 30\<rparr>)"
    by (simp add: discoverAuthEndpoint_def registryEnv_def afterFirst_def challenge_def realmAt_def)
  moreover have "cacheLookup (afterFirst\<lparr>sent := sent afterFirst @ [Get ''https://registry.example.com/v2/'' []],
                     clock := 30\<rparr>) ''registry:https://registry.example.com:default'' = Some ''T0''"
    by (simp add: cacheLookup_def afterFirst_def)
  ultimately have "getPrivateRegistryToken registryEnv exampleRegistry None afterFirst
       = (Inr (Some ''T0''),
          afterFirst\<lparr>sent := sent afterFirst @ [Get ''https://registry.example.com/v2/'' []], clock := 30\<rparr>)"
    by (simp add: getPrivateRegistryToken_def exampleRegistry_def)
  then show ?thesis
    using first_flaky second_flaky cached_afterFirst by (simp add: afterFirst_def)
qed

theorem private_token_probed_before_cache_witness:
  "truthyStr (username (credentials exampleRegistry)) \<and> truthyStr (password (credentials exampleRegistry))
   \<and> cacheLookup afterFirst ''registry:https://registry.example.com:default'' = Some ''T0''
   \<and> fst (getPrivateRegistryToken flakyRegistryEnv exampleRegistry None afterFirst) \<noteq> Inr (Some ''T0'')
   \<and> length (sent (snd (getPrivateRegistryToken registryEnv exampleRegistry None afterFirst)))
       = Suc (length (sent afterFirst))"
  using private_token_probed_before_cache
  by (simp add: exampleRegistry_def)

section \<open>A missing vulnerability scan\<close>

lemma handleError_throws_Error:
  "handleError t x = Inl y \<Longrightarrow> \<exists>m. y = ThrownError m"
proof -
  have item: "errorsItem j = Inl y \<Longrightarrow> \<exists>m. y = ThrownError m" for j
    by (cases j) auto
  have items: "errorsItems js = Inl y \<Longrightarrow> \<exists>m. y = ThrownError m" for js
    by (induction js) (auto split: sum.splits dest: item)
  have ext: "extractMessage d m = Inl y \<Longrightarrow> \<exists>m. y = ThrownError m" for d m
    by (auto simp: extractMessage_def split: json.splits if_splits option.splits sum.splits dest: items)
  assume "handleError t x = Inl y"
  then show ?thesis
    by (auto simp: handleError_def handleAxiosError_def Let_def
          split: thrown.splits option.splits if_splits sum.splits dest: ext)
qed

lemma handleError_normalised:
  "(\<exists>e. x = ThrownDH e) \<or> (\<exists>m. x = ThrownError m) \<Longrightarrow> \<exists>e. handleError t x = Inr e"
  by (auto simp: handleError_def)

lemma getVulnerabilitiesOnce_throws:
  assumes "getVulnerabilitiesOnce E repo tg w = (Inl x, w1)"
  shows "(\<exists>e. x = ThrownDH e) \<or> (\<exists>m. x = ThrownError m)"
proof (cases "parseRepository repo")
  case (Inl t)
  with assms show ?thesis
    by (auto simp: getVulnerabilitiesOnce_def parseRepository_def Let_def split: if_splits)
next
  case (Inr p)
  obtain ns name where p: "p = (ns, name)" by (cases p)
  define attempt where "attempt = (case execute E (scanRequest E (scanEndpoint ns name tg)) ''default'' False w of
                            (Inl t, w1) \<Rightarrow> (Inl t, w1)
                          | (Inr r, w1) \<Rightarrow>
                              (case transformScanResults (data r) ns name tg of
                                 Inl t \<Rightarrow> (Inl t, w1)
                               | Inr report \<Rightarrow> (Inr (Some report), w1)))"
  have once: "getVulnerabilitiesOnce E repo tg w
      = (case attempt of
                (Inr v, w1) \<Rightarrow> (Inr v, w1)
              | (Inl error, w1) \<Rightarrow>
                  (case handleError (clock w1) error of
                     Inl t \<Rightarrow> (Inl t, w1)
                   | Inr dockerHubError \<Rightarrow>
                       if statusCode dockerHubError = Some 404 then (Inr None, w1)
                       else (Inl (ThrownDH dockerHubError), w1)))"
    using Inr p by (simp add: getVulnerabilitiesOnce_def attempt_def Let_def)
  obtain r wa where a: "attempt = (r, wa)" by (cases attempt)
  show ?thesis
  proof (cases r)
    case (Inr v)
    with assms once a show ?thesis by simp
  next
    case (Inl error)
    show ?thesis
    proof (cases "handleError (clock wa) error")
      case (Inl t)
      with assms once a \<open>r = Inl error\<close> have "x = t" by simp
      with handleError_throws_Error [OF Inl] show ?thesis by simp
    next
      case (Inr e)
      with assms once a \<open>r = Inl error\<close> show ?thesis by (auto split: if_splits)
    qed
  qed
qed

lemma attemptLoop_throws_normalised:
  "(\<And>w x w1. fn w = (Inl x, w1) \<Longrightarrow> (\<exists>e. x = ThrownDH e) \<or> (\<exists>m. x = ThrownError m)) \<Longrightarrow>
   attempt \<le> maxRetries \<Longrightarrow> fst (fst (attemptLoop fn maxRetries attempt lastError w)) = Inl x \<Longrightarrow>
   \<exists>e. x = ThrownDH e"
proof (induction fn maxRetries attempt lastError w rule: attemptLoop.induct)
  case (1 fn maxRetries attempt lastError w)
  obtain r w1 where fw: "fn w = (r, w1)" by (cases "fn w")
  show ?case
  proof (cases r)
    case (Inr v)
    with fw "1.prems"(2,3) show ?thesis by (simp add: attemptLoop_returns)
  next
    case (Inl y)
    with fw "1.prems"(1) have "(\<exists>e. y = ThrownDH e) \<or> (\<exists>m. y = ThrownError m)" by blast
    from handleError_normalised [OF this] obtain e where e: "handleError (clock w1) y = Inr e" by blast
    show ?thesis
    proof (cases "attempt = maxRetries \<or> \<not> isRetryable e")
      case True
      with fw Inl e "1.prems"(2,3) show ?thesis by (auto simp: attemptLoop_surfaces)
    next
      case False
      define w2 where "w2 = (case getRetryDelay (clock w1) e attempt of
              Num d \<Rightarrow> if d > 0 then sleep d w1 else w1 | NaN \<Rightarrow> w1)"
      from False "1.prems"(2) have lt: "attempt < maxRetries" and re: "isRetryable e" by auto
      have step: "fst (attemptLoop fn maxRetries attempt lastError w)
           = fst (attemptLoop fn maxRetries (attempt + 1) (Some e) w2)"
        using attemptLoop_retries [OF lt _ e re w2_def, of fn w lastError] fw Inl by simp
      from lt have "attempt + 1 \<le> maxRetries" by simp
      from "1.IH" [OF "1.prems"(2) fw [symmetric] Inl e False refl w2_def "1.prems"(1) this]
        "1.prems"(3) step
      show ?thesis by simp
    qed
  qed
qed

text \<open>
  \<open>getVulnerabilities\<close> on a repository reference that parses, when the rate-limited
  request of an attempt fails with an error that normalises to \<open>e\<close>. If \<open>e\<close> has the status
  404, the call returns \<open>null\<close>: a result, not an error, at the first attempt and at any
  later one. Otherwise the attempt throws \<open>e\<close>, normalised, to the retry wrapper, which
  throws it to the caller at once unless it is retryable; and whatever the wrapper throws
  in the end is a normalised error. A response of the scan endpoint with the status 404
  is rejected by the HTTP client and, when it is normalised, gives an error with the
  status 404.
\<close>

lemma getVulnerabilities_not_found:
  assumes parse: "parseRepository repo = Inr (ns, name)"
    and failed: "execute E (scanRequest E (scanEndpoint ns name tg)) ''default'' False w = (Inl err, w1)"
    and norm: "handleError (clock w1) err = Inr e"
  shows "(statusCode e = Some 404 \<longrightarrow>
            getVulnerabilities E repo tg w = (Inr None, w1)
            \<and> (\<forall>attempt lastError. 1 \<le> attempt \<and> attempt \<le> 3 \<longrightarrow>
                  fst (attemptLoop (getVulnerabilitiesOnce E repo tg) 3 attempt lastError w) = (Inr None, w1)))
       \<and> (statusCode e \<noteq> Some 404 \<longrightarrow> getVulnerabilitiesOnce E repo tg w = (Inl (ThrownDH e), w1))
       \<and> (statusCode e \<noteq> Some 404 \<and> \<not> isRetryable e \<longrightarrow>
            getVulnerabilities E repo tg w = (Inl (ThrownDH e), w1))
       \<and> (\<forall>x. fst (getVulnerabilities E repo tg w) = Inl x \<longrightarrow> (\<exists>e'. x = ThrownDH e'))
       \<and> (\<forall>r t e'. status r = 404 \<and> handleError t (statusRejection r) = Inr e' \<longrightarrow>
            statusCode e' = Some 404)
       \<and> (\<forall>target hs wg r dt. http E (sent wg) (clock wg) (Get target hs) = (Response r, dt) \<and> status r = 404 \<longrightarrow>
            fst (clientGet E target hs wg) = Inl (statusRejection r))"
proof -
  have once: "getVulnerabilitiesOnce E repo tg w
      = (if statusCode e = Some 404 then (Inr None, w1) else (Inl (ThrownDH e), w1))"
    using parse failed norm by (simp add: getVulnerabilitiesOnce_def Let_def)
  have 0: "fst (attemptLoop (getVulnerabilitiesOnce E repo tg) 3 attempt lastError w) = (Inr None, w1)"
    if "statusCode e = Some 404" and "attempt \<le> 3" for attempt lastError
    using that once attemptLoop_returns [of attempt 3 "getVulnerabilitiesOnce E repo tg" w None w1 lastError]
    by simp
  have 1: "getVulnerabilities E repo tg w = (Inr None, w1)
            \<and> (\<forall>attempt lastError. 1 \<le> attempt \<and> attempt \<le> 3 \<longrightarrow>
                  fst (attemptLoop (getVulnerabilitiesOnce E repo tg) 3 attempt lastError w) = (Inr None, w1))"
    if "statusCode e = Some 404"
    using 0 [OF that, of 1 None] 0 [OF that]
    by (simp add: getVulnerabilities_def withErrorHandling_def del: One_nat_def)
  have 2: "getVulnerabilitiesOnce E repo tg w = (Inl (ThrownDH e), w1)" if "statusCode e \<noteq> Some 404"
    using that once by simp
  have 3: "getVulnerabilities E repo tg w = (Inl (ThrownDH e), w1)"
    if "statusCode e \<noteq> Some 404 \<and> \<not> isRetryable e"
    using that once
      attemptLoop_surfaces [of 1 3 "getVulnerabilitiesOnce E repo tg" w "ThrownDH e" w1 e None]
    by (simp add: getVulnerabilities_def withErrorHandling_def handleError_def del: One_nat_def)
  have 4: "\<exists>e'. x = ThrownDH e'" if "fst (getVulnerabilities E repo tg w) = Inl x" for x
  proof (rule attemptLoop_throws_normalised [of "getVulnerabilitiesOnce E repo tg" 1 3 None w x])
    show "(\<exists>e. y = ThrownDH e) \<or> (\<exists>m. y = ThrownError m)"
      if "getVulnerabilitiesOnce E repo tg w' = (Inl y, w1')" for w' y w1'
      using that by (rule getVulnerabilitiesOnce_throws)
    show "(1::nat) \<le> 3" by simp
    show "fst (fst (attemptLoop (getVulnerabilitiesOnce E repo tg) 3 1 None w)) = Inl x"
      using that by (simp add: getVulnerabilities_def withErrorHandling_def del: One_nat_def)
  qed
  have 5: "statusCode e' = Some 404" if "status r = 404 \<and> handleError t (statusRejection r) = Inr e'"
    for r t e'
    using that handleError_statusRejection [of t r e'] by simp
  have 6: "fst (clientGet E target hs wg) = Inl (statusRejection r)"
    if "http E (sent wg) (clock wg) (Get target hs) = (Response r, dt) \<and> status r = 404"
    for target hs wg r dt
    using that by (simp add: clientGet_def Let_def)
  from 1 2 3 4 5 6 show ?thesis by blast
qed


lemma noScan_attempt:
  "execute noScanEnv (scanRequest noScanEnv (scanEndpoint ''some'' ''repo'' ''latest'')) ''default'' False startWorld
   = (Inl (statusRejection notFound),
      startWorld\<lparr>rateLimiter := (rateLimiter startWorld)\<lparr>limits := [''default'' \<mapsto> \<lparr>count = Num 1, resetTime = 3600000\<rparr>]\<rparr>,
                  sent := [Get ''https://hub.docker.com/v2/repositories/some/repo/tags/latest/scan/'' []],
                  clock := 10\<rparr>)"
proof -
  let ?l = "(rateLimiter startWorld)\<lparr>limits := [''default'' \<mapsto> \<lparr>count = Num 1, resetTime = 3600000\<rparr>]\<rparr>"
  have a: "isAllowed (clock startWorld) ''default'' (rateLimiter startWorld) = (True, ?l)"
    by (simp add: isAllowed_def startWorld_def newRateLimiter_def)
  have t: "getDockerHubToken noScanEnv None w = (Inr None, w)" for w
    by (simp add: getDockerHubToken_def noScanEnv_def offlineEnv_def)
  have h: "createAuthHeaders noScanEnv None None w = (Inr [], w)" for w
    by (simp add: createAuthHeaders_def t)
  have u: "updateFromHeaders Map.empty ''default'' l = l" for l
  proof -
    have "parseInt ''0'' = Num 0"
      by (simp add: parseInt_def isWhiteSpace_def isDigit_def digitsVal_def digitVal_def)
    then show ?thesis by (simp add: updateFromHeaders_def headerOr_def)
  qed
  have hn: "headers notFound = Map.empty" "status notFound = 404"
    by (simp_all add: notFound_def)
  have g: "clientGet noScanEnv ''https://hub.docker.com/v2/repositories/some/repo/tags/latest/scan/'' []
             (startWorld\<lparr>rateLimiter := ?l\<rparr>)
           = (Inl (statusRejection notFound),
              startWorld\<lparr>rateLimiter := ?l,
                  sent := [Get ''https://hub.docker.com/v2/repositories/some/repo/tags/latest/scan/'' []],
                  clock := 10\<rparr>)"
    by (simp add: clientGet_def noScanEnv_def offlineEnv_def Let_def u hn)
       (simp add: startWorld_def)
  show ?thesis
    by (simp add: execute_def a scanRequest_def h scanEndpoint_def g)
qed

lemma malformedScan_attempt:
  "execute malformedScanEnv (scanRequest malformedScanEnv (scanEndpoint ''some'' ''repo'' ''latest''))
     ''default'' False startWorld
   = (Inl (statusRejection malformedNotFound),
      startWorld\<lparr>rateLimiter := (rateLimiter startWorld)\<lparr>limits := [''default'' \<mapsto> \<lparr>count = Num 1, resetTime = 3600000\<rparr>]\<rparr>,
                  sent := [Get ''https://hub.docker.com/v2/repositories/some/repo/tags/latest/scan/'' []],
                  clock := 10\<rparr>)"
proof -
  let ?l = "(rateLimiter startWorld)\<lparr>limits := [''default'' \<mapsto> \<lparr>count = Num 1, resetTime = 3600000\<rparr>]\<rparr>"
  have a: "isAllowed (clock startWorld) ''default'' (rateLimiter startWorld) = (True, ?l)"
    by (simp add: isAllowed_def startWorld_def newRateLimiter_def)
  have t: "getDockerHubToken malformedScanEnv None w = (Inr None, w)" for w
    by (simp add: getDockerHubToken_def malformedScanEnv_def offlineEnv_def)
  have h: "createAuthHeaders malformedScanEnv None None w = (Inr [], w)" for w
    by (simp add: createAuthHeaders_def t)
  have u: "updateFromHeaders Map.empty ''default'' l = l" for l
  proof -
    have "parseInt ''0'' = Num 0"
      by (simp add: parseInt_def isWhiteSpace_def isDigit_def digitsVal_def digitVal_def)
    then show ?thesis by (simp add: updateFromHeaders_def headerOr_def)
  qed
  have hn: "headers malformedNotFound = Map.empty" "status malformedNotFound = 404"
    by (simp_all add: malformedNotFound_def)
  have g: "clientGet malformedScanEnv ''https://hub.docker.com/v2/repositories/some/repo/tags/latest/scan/'' []
             (startWorld\<lparr>rateLimiter := ?l\<rparr>)
           = (Inl (statusRejection malformedNotFound),
              startWorld\<lparr>rateLimiter := ?l,
                  sent := [Get ''https://hub.docker.com/v2/repositories/some/repo/tags/latest/scan/'' []],
                  clock := 10\<rparr>)"
    by (simp add: clientGet_def malformedScanEnv_def offlineEnv_def Let_def u hn)
       (simp add: startWorld_def)
  show ?thesis
    by (simp add: execute_def a scanRequest_def h scanEndpoint_def g)
qed

lemma noScan_null:
  "fst (getVulnerabilities noScanEnv ''some/repo'' ''latest'' startWorld) = Inr None"
proof -
  let ?w1 = "startWorld\<lparr>rateLimiter := (rateLimiter startWorld)\<lparr>limits := [''default'' \<mapsto> \<lparr>count = Num 1, resetTime = 3600000\<rparr>]\<rparr>,
                  sent := [Get ''https://hub.docker.com/v2/repositories/some/repo/tags/latest/scan/'' []],
                  clock := 10\<rparr>"
  let ?e = "newDockerHubError ''scan not found'' (Some 404) (Some (JObj [(''message'', JStr ''scan not found'')]))"
  have p: "parseRepository ''some/repo'' = Inr (''some'', ''repo'')"
    by (simp add: parseRepository_def)
  have n: "handleError (clock ?w1) (statusRejection notFound) = Inr ?e"
    by (simp add: handleError_def handleAxiosError_def statusRejection_def notFound_def
          extractMessage_def messageOr_def)
  have s: "statusCode ?e = Some 404" by (simp add: newDockerHubError_def)
  from getVulnerabilities_not_found [OF p noScan_attempt n] s
  have "getVulnerabilities noScanEnv ''some/repo'' ''latest'' startWorld = (Inr None, ?w1)"
    by blast
  then show ?thesis by simp
qed

text \<open>
  C8. For \<open>some/repo\<close> with the tag \<open>latest\<close>, the scan endpoint answers 404 with a body
  whose field \<open>errors\<close> is the array \<open>[null]\<close>. The request of the attempt is rejected
  with that response. In the catch of \<open>getVulnerabilities\<close> the normalisation reads
  \<open>message\<close> of the \<open>null\<close> element and throws a \<open>TypeError\<close>, before the status is looked
  at; so the attempt throws instead of returning \<open>null\<close>, the retry wrapper normalises the
  \<open>TypeError\<close> to a \<open>DockerHubError\<close> without a status, which is not retryable, and the call
  throws it after this one attempt. With the body of \<open>notFound\<close>, the same status gives
  \<open>null\<close>.
\<close>

theorem getVulnerabilities_throws_on_malformed_404:
  "parseRepository ''some/repo'' = Inr (''some'', ''repo'')
   \<and> fst (execute malformedScanEnv (scanRequest malformedScanEnv (scanEndpoint ''some'' ''repo'' ''latest''))
          ''default'' False startWorld)
       = Inl (statusRejection malformedNotFound)
   \<and> status malformedNotFound = 404
   \<and> handleError 10 (statusRejection malformedNotFound) = Inl (ThrownError (typeErrorNull ''message''))
   \<and> fst (getVulnerabilitiesOnce malformedScanEnv ''some/repo'' ''latest'' startWorld)
       = Inl (ThrownError (typeErrorNull ''message''))
   \<and> fst (getVulnerabilities malformedScanEnv ''some/repo'' ''latest'' startWorld)
       = Inl (ThrownDH (newDockerHubError (typeErrorNull ''message'') None None))
   \<and> snd (attemptLoop (getVulnerabilitiesOnce malformedScanEnv ''some/repo'' ''latest'') 3 1 None startWorld)
       = [Surfaced (newDockerHubError (typeErrorNull ''message'') None None) 10]
   \<and> status notFound = 404
   \<and> fst (getVulnerabilities noScanEnv ''some/repo'' ''latest'' startWorld) = Inr None"
proof -
  let ?w1 = "startWorld\<lparr>rateLimiter := (rateLimiter startWorld)\<lparr>limits := [''default'' \<mapsto> \<lparr>count = Num 1, resetTime = 3600000\<rparr>]\<rparr>,
                  sent := [Get ''https://hub.docker.com/v2/repositories/some/repo/tags/latest/scan/'' []],
                  clock := 10\<rparr>"
  let ?e = "newDockerHubError (typeErrorNull ''message'') None None"
  have p: "parseRepository ''some/repo'' = Inr (''some'', ''repo'')"
    by (simp add: parseRepository_def)
  have n: "handleError t (statusRejection malformedNotFound) = Inl (ThrownError (typeErrorNull ''message''))" for t
    by (simp add: handleError_def handleAxiosError_def statusRejection_def malformedNotFound_def
          extractMessage_def)
  have c: "clock ?w1 = 10" by simp
  have once: "getVulnerabilitiesOnce malformedScanEnv ''some/repo'' ''latest'' startWorld
      = (Inl (ThrownError (typeErrorNull ''message'')), ?w1)"
    by (simp add: getVulnerabilitiesOnce_def p malformedScan_attempt n del: One_nat_def)
  have h: "handleError (clock ?w1) (ThrownError (typeErrorNull ''message'')) = Inr ?e"
    by (simp add: handleError_def)
  have r: "\<not> isRetryable ?e" by (simp add: isRetryable_def newDockerHubError_def)
  have loop: "attemptLoop (getVulnerabilitiesOnce malformedScanEnv ''some/repo'' ''latest'') 3 1 None startWorld
      = ((Inl (ThrownDH ?e), ?w1), [Surfaced ?e (clock ?w1)])"
    using attemptLoop_surfaces [of 1 3 "getVulnerabilitiesOnce malformedScanEnv ''some/repo'' ''latest''"
            startWorld "ThrownError (typeErrorNull ''message'')" ?w1 ?e None] once h r
    by (simp del: One_nat_def)
  have g: "fst (getVulnerabilities malformedScanEnv ''some/repo'' ''latest'' startWorld) = Inl (ThrownDH ?e)"
    by (simp add: getVulnerabilities_def withErrorHandling_def loop del: One_nat_def)
  have s: "status malformedNotFound = 404" "status notFound = 404"
    by (simp_all add: malformedNotFound_def notFound_def)
  from p n [of 10] once g loop s noScan_null malformedScan_attempt show ?thesis
    by (simp del: One_nat_def)
qed

theorem getVulnerabilities_throws_on_malformed_404_witness:
  "status malformedNotFound = 404
   \<and> fst (getVulnerabilities malformedScanEnv ''some/repo'' ''latest'' startWorld) \<noteq> Inr None
   \<and> (\<exists>e. fst (getVulnerabilities malformedScanEnv ''some/repo'' ''latest'' startWorld) = Inl (ThrownDH e)
           \<and> statusCode e = None)"
  using getVulnerabilities_throws_on_malformed_404
  by (simp add: newDockerHubError_def)

end
